theory Spec2Isabelle
  imports Complex_Main "HOL-Library.Sublist"
begin

section \<open>Marine-condition predictor: hazard tables\<close>

text \<open>
  The two scripts compute with Python floats. Finite floats are modelled as
  \<^typ>\<open>real\<close>: order comparisons against the integer thresholds of the tables are
  exact on floats, so the tables below agree with the scripts on every finite value.
  Python strings are modelled as UTF-8 byte lists; the substring test \<open>in\<close> is
  \<^const>\<open>sublist\<close> and \<open>str.startswith\<close> is \<^const>\<open>prefix\<close>.
\<close>

definition le_sign :: string where
  "le_sign = [CHR 0xE2, CHR 0x89, CHR 0xA4]"

definition ge_sign :: string where
  "ge_sign = [CHR 0xE2, CHR 0x89, CHR 0xA5]"

definition warning_sign :: string where
  "warning_sign = [CHR 0xE2, CHR 0x9A, CHR 0xA0, CHR 0xEF, CHR 0xB8, CHR 0x8F]"

definition check_mark :: string where
  "check_mark = [CHR 0xE2, CHR 0x9C, CHR 0x85]"

text \<open>Unit conversion, lines 72-73 of the marine script.\<close>

definition wspd_kt :: "real \<Rightarrow> real" where
  "wspd_kt wspd_pred = wspd_pred * 1.94384"

definition wvht_ft :: "real \<Rightarrow> real" where
  "wvht_ft wvht_pred = wvht_pred * 3.28084"

text \<open>Wave hazard level, lines 76-103: the \<open>if\<close>/\<open>elif\<close> chain in source order.\<close>

definition wave_alert :: "real \<Rightarrow> real \<Rightarrow> string" where
  "wave_alert ft dpd_pred =
     (if ft \<le> 5 then ''Waves normal (<5 ft)''
      else if 6 \<le> ft \<and> ft \<le> 8 then
        (if dpd_pred \<le> 9 then ''Small craft caution (6-8 ft, period '' @ le_sign @ ''9s)''
         else ''Waves normal (6-8 ft, period >9s)'')
      else if 9 \<le> ft \<and> ft \<le> 11 then
        (if dpd_pred \<le> 9 then ''Hazardous seas (9-11 ft, period '' @ le_sign @ ''9s)''
         else if 10 \<le> dpd_pred \<and> dpd_pred \<le> 12 then ''Small craft caution (9-11 ft, period 10-12s)''
         else ''Waves normal (9-11 ft, period '' @ ge_sign @ ''13s)'')
      else if 12 \<le> ft \<and> ft \<le> 14 then
        (if dpd_pred \<le> 11 then ''Hazardous seas (12-14 ft, period '' @ le_sign @ ''11s)''
         else if dpd_pred = 12 then ''Small craft caution (12-14 ft, period =12s)''
         else ''Waves normal (12-14 ft, period '' @ ge_sign @ ''13s)'')
      else if 15 \<le> ft then
        (if dpd_pred \<le> 12 then ''Hazardous seas (>=15 ft, period '' @ le_sign @ ''12s)''
         else ''Small craft caution (>=15 ft, period '' @ ge_sign @ ''13s)'')
      else ''Unknown'')"

text \<open>Wind warning, lines 106-115.\<close>

definition hurricane_label :: string where
  "hurricane_label = ''Hurricane warning (>=64 kt)''"

definition storm_label :: string where
  "storm_label = ''Storm warning (48-63 kt)''"

definition gale_label :: string where
  "gale_label = ''Gale warning (34-47 kt)''"

definition small_craft_label :: string where
  "small_craft_label = ''Small Craft Advisory (22-33 kt)''"

definition wind_normal_label :: string where
  "wind_normal_label = ''Wind normal (<22 kt)''"

definition wind_alert :: "real \<Rightarrow> string" where
  "wind_alert kt =
     (if 64 \<le> kt then hurricane_label
      else if 48 \<le> kt then storm_label
      else if 34 \<le> kt then gale_label
      else if 22 \<le> kt then small_craft_label
      else wind_normal_label)"

definition wind_labels :: "string list" where
  "wind_labels =
     [hurricane_label, storm_label, gale_label, small_craft_label, wind_normal_label]"

text \<open>Advice, lines 118-123.\<close>

definition danger_advice :: string where
  "danger_advice = warning_sign @ '' DANGER: Immediate evacuation or seek safe harbor''"

definition caution_advice :: string where
  "caution_advice = warning_sign @ '' CAUTION: Exercise caution''"

definition safe_advice :: string where
  "safe_advice = check_mark @ '' SAFE''"

definition advice :: "string \<Rightarrow> string \<Rightarrow> string" where
  "advice wave_label wind_label =
     (if sublist ''Hazardous'' wave_label \<or> prefix ''Hurricane'' wind_label
           \<or> prefix ''Storm'' wind_label \<or> prefix ''Gale'' wind_label
      then danger_advice
      else if sublist ''Small craft caution'' wave_label \<or> prefix ''Small Craft'' wind_label
      then caution_advice
      else safe_advice)"



section \<open>Process model\<close>

text \<open>
  A run of either script is its list of writes, each to the stream the script names,
  and its exit status. The data line is kept as a record of its fields: the decimal
  formatting of floats is not modelled. \<open>Failed p e\<close> is the f-string \<open>f"{p}{e}"\<close>,
  \<open>Traceback e\<close> is what the interpreter prints for an uncaught exception and
  \<open>Warning m\<close> is a \<open>RuntimeWarning\<close> of numpy with message \<open>m\<close>, which the
  \<open>warnings\<close> module prints on \<open>sys.stderr\<close>. What TensorFlow and Keras log on their
  own account is outside the model.
\<close>

datatype exn =
    KeyError "string list"
  | IndexError
  | ValueError string
  | OverflowError string
  | LibraryError string

datatype fval = Fin real | PInf | NInf | NaN

record datetime =
  year :: int
  month :: int
  day :: int
  hour :: int
  minute :: int

record marine_row =
  out_time :: datetime
  out_wvht_m :: real
  out_wvht_ft :: real
  out_wave_level :: string
  out_wspd_ms :: real
  out_wspd_kt :: real
  out_wind_level :: string
  out_dpd_s :: real
  out_advice :: string
  out_station :: int

datatype line =
    Text string
  | Failed string exn
  | Traceback exn
  | Warning string
  | MarineRow marine_row
  | RogueRow fval fval string

datatype stream = Stdout | Stderr | Devnull

record outcome =
  writes :: "(stream \<times> line) list"
  status :: int

definition stdout_lines :: "outcome \<Rightarrow> line list" where
  "stdout_lines r = map snd (filter (\<lambda>w. fst w = Stdout) (writes r))"

definition stderr_lines :: "outcome \<Rightarrow> line list" where
  "stderr_lines r = map snd (filter (\<lambda>w. fst w = Stderr) (writes r))"

definition bind_exn :: "exn + 'a \<Rightarrow> ('a \<Rightarrow> exn + 'b) \<Rightarrow> exn + 'b" where
  "bind_exn r f = (case r of Inl e \<Rightarrow> Inl e | Inr x \<Rightarrow> f x)"

definition nth_exn :: "'a list \<Rightarrow> nat \<Rightarrow> exn + 'a" where
  "nth_exn xs i = (if i < length xs then Inr (xs ! i) else Inl IndexError)"


section \<open>Marine-condition predictor: input frame\<close>

text \<open>
  A data frame is its column labels and its rows; a cell is a finite number or
  missing (cells that are not numbers are outside the model). Every row has one cell
  per column (\<open>wf_frame\<close>) and the labels are distinct, as pandas builds it.
\<close>

type_synonym cell = "real option"

record 'c dataframe =
  columns :: "string list"
  rows :: "'c list list"


definition features :: "string list" where
  "features =
     [''YY'', ''MM'', ''DD'', ''hh'', ''mm'', ''WDIR'', ''WSPD'', ''GST'', ''WVHT'',
      ''DPD'', ''APD'', ''MWD'', ''PRES'', ''ATMP'', ''WTMP'', ''DEWP'', ''VIS'', ''TIDE'',
      ''station'']"

text \<open>\<open>DataFrame.dropna()\<close>: a row stays when none of its cells is missing.\<close>

definition complete_row :: "cell list \<Rightarrow> bool" where
  "complete_row r = list_all (\<lambda>c. c \<noteq> None) r"

definition dropna :: "cell dataframe \<Rightarrow> real dataframe" where
  "dropna df =
     \<lparr>columns = columns df, rows = map (map the) (filter complete_row (rows df))\<rparr>"

text \<open>\<open>row[name]\<close>: the cell under a column label.\<close>

definition field :: "string list \<Rightarrow> 'c list \<Rightarrow> string \<Rightarrow> exn + 'c" where
  "field cols r name =
     (case map_of (zip cols r) name of
        None \<Rightarrow> Inl (KeyError [name])
      | Some v \<Rightarrow> Inr v)"

text \<open>\<open>df[names]\<close>: the named columns in the order asked for, KeyError when one is absent.\<close>

definition select :: "string list \<Rightarrow> 'c dataframe \<Rightarrow> exn + 'c dataframe" where
  "select names df =
     (case filter (\<lambda>f. f \<notin> set (columns df)) names of
        [] \<Rightarrow> Inr \<lparr>columns = names,
                  rows = map (\<lambda>r. map (\<lambda>f. the (map_of (zip (columns df) r) f)) names)
                           (rows df)\<rparr>
      | m # ms \<Rightarrow> Inl (KeyError (m # ms)))"

text \<open>
  Lines 38-45 once \<open>read_csv\<close> has returned: the frame without incomplete rows, and
  the window \<open>df[features].iloc[-24:]\<close>.
\<close>

definition parse_input :: "cell dataframe \<Rightarrow> line + (real dataframe \<times> real list list)" where
  "parse_input raw =
     (let df = dropna raw in
      if length (rows df) < 24 then Inl (Text ''data.csv must contain at least 24 rows'')
      else case select features df of
             Inl e \<Rightarrow> Inl (Failed ''Failed to read/process input: '' e)
           | Inr sel \<Rightarrow> Inr (df, drop (length (rows sel) - 24) (rows sel)))"

text \<open>Reordering the columns of a frame by a list of positions.\<close>

definition is_perm :: "nat list \<Rightarrow> nat \<Rightarrow> bool" where
  "is_perm p n \<longleftrightarrow> length p = n \<and> distinct p \<and> list_all (\<lambda>i. i < n) p"

definition permute :: "nat list \<Rightarrow> 'a list \<Rightarrow> 'a list" where
  "permute p xs = map (\<lambda>i. xs ! i) p"



section \<open>Marine-condition predictor: prediction step\<close>

text \<open>
  The fitted scaler and the network are artifacts outside the repository: they are
  parameters, and each call may raise.
\<close>

record scaler =
  transform :: "real list list \<Rightarrow> exn + real list list"
  inverse_transform :: "real list list \<Rightarrow> exn + real list list"

type_synonym lstm = "real list list list \<Rightarrow> exn + real list list"

text \<open>\<open>a.reshape(1, 24, len(features))\<close>: the elements in row-major order, regrouped.\<close>

definition reshape_window :: "real list list \<Rightarrow> exn + real list list list" where
  "reshape_window a =
     (let flat = concat a; k = length features in
      if length flat = 24 * k
      then Inr [map (\<lambda>i. take k (drop (i * k) flat)) [0..<24]]
      else Inl (ValueError ''cannot reshape array''))"

text \<open>Lines 47-61: the three predictions in physical units (WVHT, WSPD, DPD).\<close>

definition predict_step :: "lstm \<Rightarrow> scaler \<Rightarrow> real list list \<Rightarrow> exn + (real \<times> real \<times> real)" where
  "predict_step model sc last24 =
     bind_exn (transform sc last24) (\<lambda>last24_scaled.
     bind_exn (reshape_window last24_scaled) (\<lambda>X_input.
     bind_exn (model X_input) (\<lambda>batch.
     bind_exn (nth_exn batch 0) (\<lambda>y_pred.
     bind_exn (nth_exn y_pred 0) (\<lambda>y0.
     bind_exn (nth_exn y_pred 1) (\<lambda>y1.
     bind_exn (nth_exn y_pred 2) (\<lambda>y2.
     bind_exn (inverse_transform sc [(replicate (length features) 0)[8 := y0, 6 := y1, 9 := y2]])
       (\<lambda>restored.
     bind_exn (nth_exn restored 0) (\<lambda>r0.
     bind_exn (nth_exn r0 8) (\<lambda>wvht_pred.
     bind_exn (nth_exn r0 6) (\<lambda>wspd_pred.
     bind_exn (nth_exn r0 9) (\<lambda>dpd_pred.
     Inr (wvht_pred, wspd_pred, dpd_pred)))))))))))))"


section \<open>Marine-condition predictor: timestamp\<close>

text \<open>
  \<open>datetime(y, m, d, h, mi)\<close> and \<open>+ timedelta(minutes=30)\<close> after the reference
  implementation of the standard library: the proleptic Gregorian ordinal of a date
  (\<open>_ymd2ord\<close>), its inverse (\<open>_ord2ymd\<close>), the field checks of the constructor and
  the range check of the addition. Python's \<open>//\<close> and \<open>%\<close> on integers are \<open>div\<close> and
  \<open>mod\<close> on \<^typ>\<open>int\<close>. The seconds of the result are always zero and are left out.
\<close>

definition is_leap :: "int \<Rightarrow> bool" where
  "is_leap y \<longleftrightarrow> y mod 4 = 0 \<and> (y mod 100 \<noteq> 0 \<or> y mod 400 = 0)"

definition days_before_year :: "int \<Rightarrow> int" where
  "days_before_year y = (let z = y - 1 in z * 365 + z div 4 - z div 100 + z div 400)"

definition DAYS_IN_MONTH :: "int list" where
  "DAYS_IN_MONTH = [-1, 31, 28, 31, 30, 31, 30, 31, 31, 30, 31, 30, 31]"

definition DAYS_BEFORE_MONTH :: "int list" where
  "DAYS_BEFORE_MONTH = [-1, 0, 31, 59, 90, 120, 151, 181, 212, 243, 273, 304, 334]"

definition days_in_month :: "int \<Rightarrow> int \<Rightarrow> int" where
  "days_in_month y m = (if m = 2 \<and> is_leap y then 29 else DAYS_IN_MONTH ! nat m)"

definition days_before_month :: "int \<Rightarrow> int \<Rightarrow> int" where
  "days_before_month y m = DAYS_BEFORE_MONTH ! nat m + (if 2 < m \<and> is_leap y then 1 else 0)"

definition ymd2ord :: "int \<Rightarrow> int \<Rightarrow> int \<Rightarrow> int" where
  "ymd2ord y m d = days_before_year y + days_before_month y m + d"

definition MAXORDINAL :: int where
  "MAXORDINAL = 3652059"

text \<open>
  The closing lines of \<open>_ord2ymd\<close>: month and day of the month from the zero-based day
  of the year \<open>n\<close>. The month is estimated as \<open>(n + 50) >> 5\<close> and lowered by one when
  the estimate is too high.
\<close>

definition month_day :: "bool \<Rightarrow> int \<Rightarrow> int \<times> int" where
  "month_day leapyear n =
     (let m = (n + 50) div 32;
          preceding = DAYS_BEFORE_MONTH ! nat m + (if 2 < m \<and> leapyear then 1 else 0)
      in if n < preceding
         then (m - 1,
               n - (preceding - (DAYS_IN_MONTH ! nat (m - 1)
                                  + (if m - 1 = 2 \<and> leapyear then 1 else 0))) + 1)
         else (m, n - preceding + 1))"

definition ord2ymd :: "int \<Rightarrow> int \<times> int \<times> int" where
  "ord2ymd ordinal =
     (let n = ordinal - 1;
          n400 = n div 146097; n = n mod 146097;
          n100 = n div 36524; n = n mod 36524;
          n4 = n div 1461; n = n mod 1461;
          n1 = n div 365; n = n mod 365;
          y = n400 * 400 + 1 + n100 * 100 + n4 * 4 + n1
      in if n1 = 4 \<or> n100 = 4 then (y - 1, 12, 31)
         else (case month_day (n1 = 3 \<and> (n4 \<noteq> 24 \<or> n100 = 3)) n of
                 (m, d) \<Rightarrow> (y, m, d)))"

definition datetime_new :: "int \<Rightarrow> int \<Rightarrow> int \<Rightarrow> int \<Rightarrow> int \<Rightarrow> exn + datetime" where
  "datetime_new y m d h mi =
     (if \<not> (1 \<le> y \<and> y \<le> 9999) then Inl (ValueError ''year is out of range'')
      else if \<not> (1 \<le> m \<and> m \<le> 12) then Inl (ValueError ''month must be in 1..12'')
      else if \<not> (1 \<le> d \<and> d \<le> days_in_month y m)
           then Inl (ValueError ''day is out of range for month'')
      else if \<not> (0 \<le> h \<and> h \<le> 23) then Inl (ValueError ''hour must be in 0..23'')
      else if \<not> (0 \<le> mi \<and> mi \<le> 59) then Inl (ValueError ''minute must be in 0..59'')
      else Inr \<lparr>year = y, month = m, day = d, hour = h, minute = mi\<rparr>)"

definition add_minutes :: "datetime \<Rightarrow> int \<Rightarrow> exn + datetime" where
  "add_minutes t k =
     (let total = ymd2ord (year t) (month t) (day t) * 86400
                    + hour t * 3600 + minute t * 60 + k * 60;
          days = total div 86400;
          seconds = total mod 86400;
          h = seconds div 3600;
          mi = (seconds mod 3600) div 60
      in if 0 < days \<and> days \<le> MAXORDINAL
         then (case ord2ymd days of
                 (y, m, d) \<Rightarrow> Inr \<lparr>year = y, month = m, day = d, hour = h, minute = mi\<rparr>)
         else Inl (OverflowError ''date value out of range''))"

text \<open>\<open>int(x)\<close> on a finite float truncates towards zero.\<close>

definition py_int :: "real \<Rightarrow> int" where
  "py_int x = (if 0 \<le> x then \<lfloor>x\<rfloor> else \<lceil>x\<rceil>)"

text \<open>Minutes since the start of day 0 of the ordinal count: the instant a timestamp names.\<close>

definition minutes_of :: "datetime \<Rightarrow> int" where
  "minutes_of t = ymd2ord (year t) (month t) (day t) * 1440 + hour t * 60 + minute t"

definition valid_datetime :: "datetime \<Rightarrow> bool" where
  "valid_datetime t \<longleftrightarrow>
     1 \<le> year t \<and> year t \<le> 9999 \<and> 1 \<le> month t \<and> month t \<le> 12 \<and>
     1 \<le> day t \<and> day t \<le> days_in_month (year t) (month t) \<and>
     0 \<le> hour t \<and> hour t \<le> 23 \<and> 0 \<le> minute t \<and> minute t \<le> 59"

text \<open>Lines 64-67: the timestamp of a row, and the forecast timestamp.\<close>

definition row_time :: "string list \<Rightarrow> real list \<Rightarrow> exn + datetime" where
  "row_time cols row =
     bind_exn (field cols row ''YY'') (\<lambda>yy.
     bind_exn (field cols row ''MM'') (\<lambda>mm.
     bind_exn (field cols row ''DD'') (\<lambda>dd.
     bind_exn (field cols row ''hh'') (\<lambda>hh.
     bind_exn (field cols row ''mm'') (\<lambda>mi.
     datetime_new (py_int yy) (py_int mm) (py_int dd) (py_int hh) (py_int mi))))))"

definition next_time :: "string list \<Rightarrow> real list \<Rightarrow> exn + datetime" where
  "next_time cols row = bind_exn (row_time cols row) (\<lambda>last_time. add_minutes last_time 30)"

section \<open>Marine-condition predictor: the run\<close>

text \<open>
  Line 16 rebinds \<open>sys.stderr\<close> to the null device before anything else, so every later
  \<open>print(..., file=sys.stderr)\<close> and every traceback of this script is written there.
\<close>

definition sys_stderr :: stream where
  "sys_stderr = Devnull"

definition die :: "line \<Rightarrow> outcome" where
  "die l = \<lparr>writes = [(sys_stderr, l)], status = 1\<rparr>"

text \<open>An uncaught exception: the traceback goes to the stream bound to \<open>sys.stderr\<close>, status 1.\<close>

definition crash :: "stream \<Rightarrow> exn \<Rightarrow> outcome" where
  "crash err e = \<lparr>writes = [(err, Traceback e)], status = 1\<rparr>"

record marine_env =
  load_artifacts :: "exn + (lstm \<times> scaler)"
  read_csv :: "string \<Rightarrow> exn + cell dataframe"

definition marine_usage :: string where
  "marine_usage = ''Usage: python predict.py <data.csv>''"

definition marine_header :: string where
  "marine_header =
     ''time,wvht(m),wvht(ft),wave_level,wspd(m/s),wspd(kt),wind_level,dpd(s),advice,station''"

text \<open>Lines 72-127: conversion, the three tables and the station number.\<close>

definition marine_report :: "real \<Rightarrow> real \<Rightarrow> real \<Rightarrow> datetime \<Rightarrow> real \<Rightarrow> marine_row" where
  "marine_report wvht_pred wspd_pred dpd_pred t station =
     (let kt = wspd_kt wspd_pred;
          ft = wvht_ft wvht_pred;
          wave = wave_alert ft dpd_pred;
          wind = wind_alert kt
      in \<lparr>out_time = t, out_wvht_m = wvht_pred, out_wvht_ft = ft, out_wave_level = wave,
          out_wspd_ms = wspd_pred, out_wspd_kt = kt, out_wind_level = wind,
          out_dpd_s = dpd_pred, out_advice = advice wave wind,
          out_station = py_int station\<rparr>)"

definition last_row :: "'c dataframe \<Rightarrow> exn + 'c list" where
  "last_row df = nth_exn (rows df) (length (rows df) - 1)"

text \<open>Lines 37-131, from the frame \<open>read_csv\<close> returned.\<close>

definition marine_process :: "lstm \<Rightarrow> scaler \<Rightarrow> cell dataframe \<Rightarrow> outcome" where
  "marine_process model sc raw =
     (case parse_input raw of
        Inl l \<Rightarrow> die l
      | Inr (df, last24) \<Rightarrow>
          (case predict_step model sc last24 of
             Inl e \<Rightarrow> die (Failed ''Prediction failed: '' e)
           | Inr (wvht_pred, wspd_pred, dpd_pred) \<Rightarrow>
               (case bind_exn (last_row df)
                       (\<lambda>row. bind_exn (next_time (columns df) row) (\<lambda>t. Inr (row, t))) of
                  Inl e \<Rightarrow> die (Failed ''Time parsing failed: '' e)
                | Inr (row, t) \<Rightarrow>
                    (case field (columns df) row ''station'' of
                       Inl e \<Rightarrow> crash sys_stderr e
                     | Inr station \<Rightarrow>
                         \<lparr>writes =
                            [(Stdout, Text marine_header),
                             (Stdout, MarineRow
                                (marine_report wvht_pred wspd_pred dpd_pred t station))],
                          status = 0\<rparr>))))"

definition marine_main :: "marine_env \<Rightarrow> string list \<Rightarrow> outcome" where
  "marine_main env argv =
     (if length argv \<noteq> 2 then die (Text marine_usage)
      else case load_artifacts env of
             Inl e \<Rightarrow> die (Failed ''Failed to load model or scaler: '' e)
           | Inr (model, sc) \<Rightarrow>
               (case read_csv env (argv ! 1) of
                  Inl e \<Rightarrow> die (Failed ''Failed to read/process input: '' e)
                | Inr raw \<Rightarrow> marine_process model sc raw))"


section \<open>Rogue-wave predictor\<close>

text \<open>
  Dividing by a zero scale does not raise in numpy: the quotient is an infinity or
  NaN, and a warning is printed. The values that reach the network and leave the
  softmax are therefore \<^typ>\<open>fval\<close>: a finite number (no rounding, overflow or
  underflow modelled), an infinity, or NaN, with the IEEE rules for the special values.
\<close>

fun fdiv :: "fval \<Rightarrow> fval \<Rightarrow> fval" where
  "fdiv NaN y = NaN"
| "fdiv x NaN = NaN"
| "fdiv (Fin a) (Fin b) =
     (if b \<noteq> 0 then Fin (a / b) else if a = 0 then NaN else if 0 < a then PInf else NInf)"
| "fdiv (Fin a) y = Fin 0"
| "fdiv PInf (Fin b) = (if 0 \<le> b then PInf else NInf)"
| "fdiv NInf (Fin b) = (if 0 \<le> b then NInf else PInf)"
| "fdiv x y = NaN"

fun fmul :: "fval \<Rightarrow> fval \<Rightarrow> fval" where
  "fmul NaN y = NaN"
| "fmul x NaN = NaN"
| "fmul (Fin a) (Fin b) = Fin (a * b)"
| "fmul (Fin a) PInf = (if a = 0 then NaN else if 0 < a then PInf else NInf)"
| "fmul (Fin a) NInf = (if a = 0 then NaN else if 0 < a then NInf else PInf)"
| "fmul PInf (Fin b) = (if b = 0 then NaN else if 0 < b then PInf else NInf)"
| "fmul NInf (Fin b) = (if b = 0 then NaN else if 0 < b then NInf else PInf)"
| "fmul PInf PInf = PInf"
| "fmul NInf NInf = PInf"
| "fmul x y = NInf"

fun fadd :: "fval \<Rightarrow> fval \<Rightarrow> fval" where
  "fadd NaN y = NaN"
| "fadd x NaN = NaN"
| "fadd (Fin a) (Fin b) = Fin (a + b)"
| "fadd PInf NInf = NaN"
| "fadd NInf PInf = NaN"
| "fadd (Fin a) y = y"
| "fadd x y = x"

fun fneg :: "fval \<Rightarrow> fval" where
  "fneg (Fin a) = Fin (- a)"
| "fneg PInf = NInf"
| "fneg NInf = PInf"
| "fneg NaN = NaN"

definition fsub :: "fval \<Rightarrow> fval \<Rightarrow> fval" where
  "fsub x y = fadd x (fneg y)"

fun fexp :: "fval \<Rightarrow> fval" where
  "fexp (Fin a) = Fin (exp a)"
| "fexp PInf = PInf"
| "fexp NInf = Fin 0"
| "fexp NaN = NaN"

fun fless :: "fval \<Rightarrow> fval \<Rightarrow> bool" where
  "fless NaN y = False"
| "fless x NaN = False"
| "fless (Fin a) (Fin b) = (a < b)"
| "fless x PInf = (x \<noteq> PInf)"
| "fless NInf y = (y \<noteq> NInf)"
| "fless x y = False"

text \<open>The larger of two entries; NaN wins.\<close>

definition fmax :: "fval \<Rightarrow> fval \<Rightarrow> fval" where
  "fmax x y = (if x = NaN \<or> y = NaN then NaN else if fless x y then y else x)"

text \<open>
  \<open>np.amax\<close> and \<open>np.sum\<close> along a row that is not empty. Minus infinity and zero
  are neutral for \<open>fmax\<close> and \<open>fadd\<close> on such a row.
\<close>

definition amax :: "fval list \<Rightarrow> fval" where
  "amax xs = foldr fmax xs NInf"

definition fsum :: "fval list \<Rightarrow> fval" where
  "fsum xs = foldr fadd xs (Fin 0)"

text \<open>
  \<open>scipy.special.softmax\<close> along one row: shift by the maximum, exponentiate,
  normalise. The subtraction is the one operation of it that can set a floating-point
  flag numpy warns about: infinity minus infinity.
\<close>

definition softmax :: "fval list \<Rightarrow> fval list" where
  "softmax x =
     (let x_max = amax x;
          exp_x_shifted = map (\<lambda>v. fexp (fsub v x_max)) x;
          total = fsum exp_x_shifted
      in map (\<lambda>e. fdiv e total) exp_x_shifted)"

definition softmax_warnings :: "fval list list \<Rightarrow> line list" where
  "softmax_warnings pred =
     (if list_ex (\<lambda>x. list_ex (\<lambda>v. (v = PInf \<or> v = NInf) \<and> v = amax x) x) pred
      then [Warning ''invalid value encountered in subtract'']
      else [])"

text \<open>
  \<open>softmax(pred, axis=-1)\<close> on a batch of rows. A reduction along an axis of length
  zero raises.
\<close>

definition softmax_axis :: "fval list list \<Rightarrow> exn + fval list list" where
  "softmax_axis pred =
     (if list_ex (\<lambda>x. x = []) pred
      then Inl (ValueError ''zero-size array to reduction operation maximum'')
      else Inr (map softmax pred))"

text \<open>\<open>np.argmax\<close> along a row: the first NaN if there is one, else the first maximum.\<close>

fun first_index :: "('a \<Rightarrow> bool) \<Rightarrow> 'a list \<Rightarrow> nat" where
  "first_index P [] = 0"
| "first_index P (x # xs) = (if P x then 0 else Suc (first_index P xs))"

definition argmax :: "fval list \<Rightarrow> nat" where
  "argmax xs = first_index (\<lambda>v. v = amax xs) xs"

definition wave_type_str :: "nat \<Rightarrow> string" where
  "wave_type_str wave_type_idx = (if wave_type_idx = 0 then ''non-rogue wave'' else ''rogue wave'')"

text \<open>
  The container is its entries in file order. \<open>np.std\<close> is numpy's float64
  computation, rounding included: a parameter of the environment that gives the value
  and the warnings numpy prints on the way (on an empty array the value is NaN, and
  numpy warns). The classifier is a network outside the repository: \<open>predict\<close> is a
  parameter that raises or returns a batch of score rows.
\<close>

type_synonym npz = "(string \<times> real list) list"

type_synonym classifier = "fval list \<Rightarrow> exn + fval list list"

record rogue_env =
  np_load :: "string \<Rightarrow> exn + npz"
  np_std :: "real list \<Rightarrow> fval \<times> string list"
  load_model :: "string \<Rightarrow> exn + classifier"

definition rogue_usage :: string where
  "rogue_usage = ''Usage: python predict.py <npz_path>''"

definition rogue_header :: string where
  "rogue_header = ''norw_prob,rw_prob,wave_type_prediction''"

definition model_path :: string where
  "model_path =
     ''/root/app/rouge_wave_model/RWs_H_g_2p2_tadv_1min'' @ ''/''
       @ (''best_LSTM_'' @ ''RWs_H_g_2p2_tadv_1min'' @ ''.h5'')"

text \<open>Lines 20-25: the array under \<open>zdisp\<close>, else under \<open>zdisp_norw\<close>, else the first entry.\<close>

definition pick_trace :: "npz \<Rightarrow> exn + real list" where
  "pick_trace data =
     (case map_of data ''zdisp'' of
        Some z \<Rightarrow> Inr z
      | None \<Rightarrow>
          (case map_of data ''zdisp_norw'' of
             Some z \<Rightarrow> Inr z
           | None \<Rightarrow> (case data of [] \<Rightarrow> Inl IndexError | kz # _ \<Rightarrow> Inr (snd kz))))"

text \<open>
  Lines 28-29: four times the standard deviation, and the trace divided by it. The
  division warns once for each flag it sets, "divide by zero" before "invalid".
\<close>

definition significant_wave_height :: "fval \<Rightarrow> fval" where
  "significant_wave_height std = fmul (Fin 4) std"

definition zdisp_norm :: "fval \<Rightarrow> real list \<Rightarrow> fval list" where
  "zdisp_norm swh zdisp = map (\<lambda>x. fdiv (Fin x) swh) zdisp"

definition divide_warnings :: "fval \<Rightarrow> real list \<Rightarrow> line list" where
  "divide_warnings swh zdisp =
     (if swh = Fin 0 \<and> list_ex (\<lambda>x. x \<noteq> 0) zdisp
      then [Warning ''divide by zero encountered in divide''] else [])
     @ (if swh = Fin 0 \<and> list_ex (\<lambda>x. x = 0) zdisp
        then [Warning ''invalid value encountered in divide''] else [])"

text \<open>Lines 39-45: the two probabilities of the first row and the label, as the data line.\<close>

definition rogue_report :: "fval list list \<Rightarrow> exn + line" where
  "rogue_report prob =
     bind_exn (nth_exn prob 0) (\<lambda>row0.
     bind_exn (nth_exn row0 0) (\<lambda>norw_prob.
     bind_exn (nth_exn row0 1) (\<lambda>rw_prob.
     Inr (RogueRow norw_prob rw_prob (wave_type_str (argmax row0))))))"

definition rogue_row :: "fval list list \<Rightarrow> exn + line" where
  "rogue_row pred = bind_exn (softmax_axis pred) rogue_report"

text \<open>An uncaught exception after warnings: all of it on standard error, status 1.\<close>

definition crash_after :: "line list \<Rightarrow> exn \<Rightarrow> outcome" where
  "crash_after ws e = \<lparr>writes = map (Pair Stderr) ws @ [(Stderr, Traceback e)], status = 1\<rparr>"

text \<open>Lines 15-45, from the path.\<close>

definition rogue_process :: "rogue_env \<Rightarrow> string \<Rightarrow> outcome" where
  "rogue_process env npz_path =
     (case np_load env npz_path of
        Inl e \<Rightarrow> crash_after [] e
      | Inr data \<Rightarrow>
          (case pick_trace data of
             Inl e \<Rightarrow> crash_after [] e
           | Inr zdisp \<Rightarrow>
               (let std = np_std env zdisp;
                    swh = significant_wave_height (fst std);
                    zdisp_n = zdisp_norm swh zdisp;
                    ws = map Warning (snd std) @ divide_warnings swh zdisp
                in if length zdisp_n \<noteq> 1536
                   then crash_after ws (ValueError ''cannot reshape array'')
                   else case load_model env model_path of
                          Inl e \<Rightarrow> crash_after ws e
                        | Inr model \<Rightarrow>
                            (case model zdisp_n of
                               Inl e \<Rightarrow> crash_after ws e
                             | Inr pred \<Rightarrow>
                                 (case softmax_axis pred of
                                    Inl e \<Rightarrow> crash_after ws e
                                  | Inr prob \<Rightarrow>
                                      (case rogue_report prob of
                                         Inl e \<Rightarrow> crash_after (ws @ softmax_warnings pred) e
                                       | Inr l \<Rightarrow>
                                           \<lparr>writes =
                                              map (Pair Stderr) (ws @ softmax_warnings pred)
                                              @ [(Stdout, Text rogue_header), (Stdout, l)],
                                            status = 0\<rparr>))))))"

definition rogue_main :: "rogue_env \<Rightarrow> string list \<Rightarrow> outcome" where
  "rogue_main env argv =
     (if length argv < 2 then \<lparr>writes = [(Stdout, Text rogue_usage)], status = 1\<rparr>
      else rogue_process env (argv ! 1))"


section \<open>Concrete environments\<close>

text \<open>
  Inputs on which the runs are evaluated. \<open>flat_env\<close> holds an all-zero trace and a
  stand-in network that answers NaN scores when its input holds a NaN, as IEEE
  arithmetic in the layers of a network does. \<open>swell_env\<close> holds a trace of 768 ones
  and 768 minus ones and a stand-in network with equal scores. On both traces every
  intermediate value of \<open>np.std\<close> is an integer, so the float computation is exact and
  gives the value of \<open>exact_std\<close>, 0 and 1, without a warning. \<open>void_env\<close> and \<open>bare_env\<close> have no
  files at all.
\<close>

definition mean :: "real list \<Rightarrow> real" where
  "mean xs = sum_list xs / real (length xs)"

definition exact_std :: "real list \<Rightarrow> real" where
  "exact_std xs = sqrt (mean (map (\<lambda>x. (x - mean xs)\<^sup>2) xs))"

definition nan_net :: classifier where
  "nan_net x = Inr [if NaN \<in> set x then [NaN, NaN] else [Fin 0, Fin 0]]"

definition flat_env :: rogue_env where
  "flat_env =
     \<lparr>np_load = (\<lambda>path. Inr [(''zdisp'', replicate 1536 0)]),
      np_std = (\<lambda>z. (Fin (exact_std z), [])),
      load_model = (\<lambda>path. Inr nan_net)\<rparr>"

definition even_net :: classifier where
  "even_net x = Inr [[Fin 0, Fin 0]]"

definition swell_env :: rogue_env where
  "swell_env =
     \<lparr>np_load = (\<lambda>path. Inr [(''zdisp_norw'', replicate 768 1 @ replicate 768 (- 1))]),
      np_std = (\<lambda>z. (Fin (exact_std z), [])),
      load_model = (\<lambda>path. Inr even_net)\<rparr>"

definition void_env :: rogue_env where
  "void_env =
     \<lparr>np_load = (\<lambda>path. Inl (LibraryError ''No such file or directory'')),
      np_std = (\<lambda>z. (Fin (exact_std z), [])),
      load_model = (\<lambda>path. Inl (LibraryError ''No such file or directory''))\<rparr>"

definition bare_env :: marine_env where
  "bare_env =
     \<lparr>load_artifacts = Inl (LibraryError ''No such file or directory''),
      read_csv = (\<lambda>path. Inl (LibraryError ''No such file or directory''))\<rparr>"

text \<open>A line that is a numpy warning.\<close>

fun is_warning :: "line \<Rightarrow> bool" where
  "is_warning (Warning m) = True"
| "is_warning l = False"

text \<open>The lines the marine script writes when it gives up, by category.\<close>

fun marine_diagnostic :: "line \<Rightarrow> bool" where
  "marine_diagnostic (Text s) =
     (s = marine_usage \<or> s = ''data.csv must contain at least 24 rows'')"
| "marine_diagnostic (Failed p e) =
     (p = ''Failed to load model or scaler: '' \<or> p = ''Failed to read/process input: ''
      \<or> p = ''Prediction failed: '' \<or> p = ''Time parsing failed: '')"
| "marine_diagnostic (Traceback e) = True"
| "marine_diagnostic l = False"


text \<open>
  Inputs for the marine script: a frame of 24 complete rows dated 2024-01-01 00:00, the
  same frame with a missing wave height in its last row, the same frame with an extra
  column whose last cell is missing, a scaler that changes nothing and a network with
  fixed outputs.
\<close>

definition calm_row :: "cell list" where
  "calm_row =
     [Some 2024, Some 1, Some 1, Some 0, Some 0, Some 180, Some 5, Some 7, Some 1,
      Some 8, Some 6, Some 180, Some 1013, Some 15, Some 14, Some 10, Some 10, Some 0,
      Some 12]"

definition calm_frame :: "cell dataframe" where
  "calm_frame = \<lparr>columns = features, rows = replicate 24 calm_row\<rparr>"

definition gappy_frame :: "cell dataframe" where
  "gappy_frame = \<lparr>columns = features, rows = replicate 23 calm_row @ [calm_row[8 := None]]\<rparr>"

definition identity_scaler :: scaler where
  "identity_scaler = \<lparr>transform = Inr, inverse_transform = Inr\<rparr>"

definition steady_lstm :: lstm where
  "steady_lstm x = Inr [[1, 5, 8]]"

definition calm_env :: marine_env where
  "calm_env = \<lparr>load_artifacts = Inr (steady_lstm, identity_scaler),
               read_csv = (\<lambda>path. Inr calm_frame)\<rparr>"

definition gappy_env :: marine_env where
  "gappy_env = \<lparr>load_artifacts = Inr (steady_lstm, identity_scaler),
               read_csv = (\<lambda>path. Inr gappy_frame)\<rparr>"




text \<open>A frame of 24 complete rows dated 9999-12-31 23:30.\<close>

definition late_row :: "cell list" where
  "late_row =
     [Some 9999, Some 12, Some 31, Some 23, Some 30, Some 180, Some 5, Some 7, Some 1,
      Some 8, Some 6, Some 180, Some 1013, Some 15, Some 14, Some 10, Some 10, Some 0,
      Some 12]"

definition late_frame :: "cell dataframe" where
  "late_frame = \<lparr>columns = features, rows = replicate 24 late_row\<rparr>"

definition late_env :: marine_env where
  "late_env = \<lparr>load_artifacts = Inr (steady_lstm, identity_scaler),
               read_csv = (\<lambda>path. Inr late_frame)\<rparr>"


section \<open>Properties of the hazard tables\<close>

lemmas wind_label_defs =
  hurricane_label_def storm_label_def gale_label_def small_craft_label_def
  wind_normal_label_def

lemma wind_labels_distinct: "distinct wind_labels"
  by (simp add: wind_labels_def wind_label_defs)

lemma wind_label_neq:
  "hurricane_label \<noteq> storm_label" "hurricane_label \<noteq> gale_label"
  "hurricane_label \<noteq> small_craft_label" "hurricane_label \<noteq> wind_normal_label"
  "storm_label \<noteq> gale_label" "storm_label \<noteq> small_craft_label"
  "storm_label \<noteq> wind_normal_label" "gale_label \<noteq> small_craft_label"
  "gale_label \<noteq> wind_normal_label" "small_craft_label \<noteq> wind_normal_label"
  using wind_labels_distinct by (simp_all add: wind_labels_def)

lemma wind_prefix_table:
  "prefix ''Hurricane'' hurricane_label" "\<not> prefix ''Storm'' hurricane_label"
  "\<not> prefix ''Gale'' hurricane_label" "\<not> prefix ''Small Craft'' hurricane_label"
  "\<not> prefix ''Hurricane'' storm_label" "prefix ''Storm'' storm_label"
  "\<not> prefix ''Gale'' storm_label" "\<not> prefix ''Small Craft'' storm_label"
  "\<not> prefix ''Hurricane'' gale_label" "\<not> prefix ''Storm'' gale_label"
  "prefix ''Gale'' gale_label" "\<not> prefix ''Small Craft'' gale_label"
  "\<not> prefix ''Hurricane'' small_craft_label" "\<not> prefix ''Storm'' small_craft_label"
  "\<not> prefix ''Gale'' small_craft_label" "prefix ''Small Craft'' small_craft_label"
  "\<not> prefix ''Hurricane'' wind_normal_label" "\<not> prefix ''Storm'' wind_normal_label"
  "\<not> prefix ''Gale'' wind_normal_label" "\<not> prefix ''Small Craft'' wind_normal_label"
  by (simp_all add: wind_label_defs)

text \<open>
  C1. The claim: every (height in feet, period) pair receives one of the documented
  band labels and the \<open>Unknown\<close> fallback is unreachable. The chain of lines 76-103
  tests \<open>\<le> 5\<close>, \<open>6..8\<close>, \<open>9..11\<close>, \<open>12..14\<close>, \<open>\<ge> 15\<close> on a float, so a height
  strictly between two bands falls through to the fallback: a predicted height of
  1.7 m is 5.577428 ft and is labelled \<open>Unknown\<close>. The fallback is reached exactly on
  the four open intervals between the bands.
\<close>

theorem wave_alert_gap_unknown:
  "wvht_ft 1.7 = 5.577428 \<and> wave_alert (wvht_ft 1.7) 8 = ''Unknown'' \<and>
   (wave_alert ft dpd_pred = ''Unknown'' \<longleftrightarrow>
      (5 < ft \<and> ft < 6) \<or> (8 < ft \<and> ft < 9) \<or> (11 < ft \<and> ft < 12) \<or> (14 < ft \<and> ft < 15))"
proof -
  have "wvht_ft 1.7 = 5.577428 \<and> wave_alert (wvht_ft 1.7) 8 = ''Unknown''"
    by (simp add: wvht_ft_def wave_alert_def)
  moreover have "wave_alert ft dpd_pred = ''Unknown'' \<longleftrightarrow>
      (5 < ft \<and> ft < 6) \<or> (8 < ft \<and> ft < 9) \<or> (11 < ft \<and> ft < 12) \<or> (14 < ft \<and> ft < 15)"
    by (auto simp: wave_alert_def)
  ultimately show ?thesis by simp
qed

text \<open>
  C6. The wind label is fixed by the thresholds 64, 48, 34 and 22 knots, tested
  highest first: each label is given on exactly one interval of speeds, the five
  intervals are disjoint and cover every speed, and 64 kt is a hurricane warning,
  63.9 kt a storm warning, 21.9 kt normal wind.
\<close>

theorem wind_alert_thresholds:
  "(wind_alert kt = hurricane_label \<longleftrightarrow> 64 \<le> kt) \<and>
   (wind_alert kt = storm_label \<longleftrightarrow> 48 \<le> kt \<and> kt < 64) \<and>
   (wind_alert kt = gale_label \<longleftrightarrow> 34 \<le> kt \<and> kt < 48) \<and>
   (wind_alert kt = small_craft_label \<longleftrightarrow> 22 \<le> kt \<and> kt < 34) \<and>
   (wind_alert kt = wind_normal_label \<longleftrightarrow> kt < 22) \<and>
   wind_alert 64 = hurricane_label \<and>
   wind_alert 63.9 = storm_label \<and>
   wind_alert 21.9 = wind_normal_label"
  using wind_label_neq wind_label_neq [symmetric] by (simp add: wind_alert_def)

lemma wind_alert_in_labels: "wind_alert kt \<in> set wind_labels"
  by (simp add: wind_alert_def wind_labels_def)

lemma advice_neq:
  "danger_advice \<noteq> caution_advice" "danger_advice \<noteq> safe_advice"
  "caution_advice \<noteq> safe_advice"
  by (simp_all add: danger_advice_def caution_advice_def safe_advice_def
      warning_sign_def check_mark_def)

lemma wind_prefixes:
  assumes "wl \<in> set wind_labels"
  shows "(prefix ''Hurricane'' wl \<longleftrightarrow> wl = hurricane_label) \<and>
     (prefix ''Storm'' wl \<longleftrightarrow> wl = storm_label) \<and>
     (prefix ''Gale'' wl \<longleftrightarrow> wl = gale_label) \<and>
     (prefix ''Small Craft'' wl \<longleftrightarrow> wl = small_craft_label)"
  using assms wind_prefix_table wind_label_neq wind_label_neq [symmetric]
  by (auto simp: wind_labels_def)

lemma hazardous_example: "sublist ''Hazardous'' (wave_alert 10 8)"
  by (simp add: wave_alert_def sublist_code)

text \<open>
  C5. For every wave label \<open>w\<close> and every wind label \<open>wl\<close> of the wind table, the
  advisory is DANGER exactly when \<open>w\<close> contains "Hazardous" or \<open>wl\<close> is the hurricane,
  storm or gale label; otherwise CAUTION exactly when \<open>w\<close> contains "Small craft
  caution" or \<open>wl\<close> is the small-craft advisory; otherwise SAFE. A hazardous wave
  label with the normal wind label gives DANGER.
\<close>

theorem advice_precedence:
  assumes "wl \<in> set wind_labels"
  shows "(advice w wl = danger_advice \<longleftrightarrow>
            sublist ''Hazardous'' w \<or> wl = hurricane_label \<or> wl = storm_label
              \<or> wl = gale_label) \<and>
         (advice w wl = caution_advice \<longleftrightarrow>
            \<not> (sublist ''Hazardous'' w \<or> wl = hurricane_label \<or> wl = storm_label
                 \<or> wl = gale_label) \<and>
            (sublist ''Small craft caution'' w \<or> wl = small_craft_label)) \<and>
         (advice w wl = safe_advice \<longleftrightarrow>
            \<not> (sublist ''Hazardous'' w \<or> wl = hurricane_label \<or> wl = storm_label
                 \<or> wl = gale_label) \<and>
            \<not> (sublist ''Small craft caution'' w \<or> wl = small_craft_label)) \<and>
         (sublist ''Hazardous'' w \<longrightarrow> advice w wind_normal_label = danger_advice)"
proof -
  note p = wind_prefixes [OF assms]
  have "advice w wl =
      (if sublist ''Hazardous'' w \<or> wl = hurricane_label \<or> wl = storm_label \<or> wl = gale_label
       then danger_advice
       else if sublist ''Small craft caution'' w \<or> wl = small_craft_label
       then caution_advice else safe_advice)"
    unfolding advice_def using p by simp
  moreover have "sublist ''Hazardous'' w \<longrightarrow> advice w wind_normal_label = danger_advice"
    by (simp add: advice_def)
  ultimately show ?thesis
    using advice_neq advice_neq [symmetric] by simp
qed

theorem advice_precedence_witness:
  "wind_alert 10 \<in> set wind_labels \<and> sublist ''Hazardous'' (wave_alert 10 8) \<and>
   wind_alert 10 = wind_normal_label \<and>
   advice (wave_alert 10 8) (wind_alert 10) = danger_advice"
proof -
  have l: "wind_alert 10 \<in> set wind_labels" by (rule wind_alert_in_labels)
  have n: "wind_alert 10 = wind_normal_label" by (simp add: wind_alert_def)
  show ?thesis
    using advice_precedence [OF l, of "wave_alert 10 8"] hazardous_example l n by simp
qed

lemma marine_main_cases:
  "(\<exists>l. marine_diagnostic l \<and> marine_main env argv = \<lparr>writes = [(Devnull, l)], status = 1\<rparr>) \<or>
   (\<exists>row. marine_main env argv =
      \<lparr>writes = [(Stdout, Text marine_header), (Stdout, MarineRow row)], status = 0\<rparr>)"
  by (auto simp: marine_main_def marine_process_def parse_input_def die_def crash_def
      sys_stderr_def Let_def split: sum.splits prod.splits)

lemma bare_usage:
  "marine_main bare_env [''predict.py''] = \<lparr>writes = [(Devnull, Text marine_usage)], status = 1\<rparr>"
  by (simp add: marine_main_def die_def sys_stderr_def)

lemma bare_load:
  "marine_main bare_env [''predict.py'', ''data.csv''] =
     \<lparr>writes = [(Devnull, Failed ''Failed to load model or scaler: ''
                  (LibraryError ''No such file or directory''))], status = 1\<rparr>"
  by (simp add: marine_main_def die_def sys_stderr_def bare_env_def)

lemma select_ok:
  "set names \<subseteq> set (columns df) \<Longrightarrow>
     select names df =
       Inr \<lparr>columns = names,
            rows = map (\<lambda>r. map (\<lambda>f. the (map_of (zip (columns df) r) f)) names) (rows df)\<rparr>"
proof -
  assume "set names \<subseteq> set (columns df)"
  then have "filter (\<lambda>f. f \<notin> set (columns df)) names = []"
    by (auto simp: filter_empty_conv)
  then show ?thesis by (simp add: select_def)
qed

lemma select_fail:
  "\<not> set names \<subseteq> set (columns df) \<Longrightarrow> \<exists>ms. select names df = Inl (KeyError ms)"
proof -
  assume "\<not> set names \<subseteq> set (columns df)"
  then have "filter (\<lambda>f. f \<notin> set (columns df)) names \<noteq> []"
    by (auto simp: filter_empty_conv)
  then show ?thesis by (auto simp: select_def split: list.splits)
qed

lemma columns_dropna: "columns (dropna raw) = columns raw"
  by (simp add: dropna_def)

lemma parse_input_short:
  "length (rows (dropna raw)) < 24 \<Longrightarrow>
     parse_input raw = Inl (Text ''data.csv must contain at least 24 rows'')"
  by (simp add: parse_input_def Let_def)

lemma parse_input_window:
  assumes "24 \<le> length (rows (dropna raw))" "set features \<subseteq> set (columns raw)"
  shows "parse_input raw =
     Inr (dropna raw,
          map (\<lambda>r. map (\<lambda>f. the (map_of (zip (columns raw) r) f)) features)
            (drop (length (rows (dropna raw)) - 24) (rows (dropna raw))))"
proof -
  have "set features \<subseteq> set (columns (dropna raw))"
    using assms(2) by (simp add: columns_dropna)
  from select_ok [OF this] assms(1) show ?thesis
    by (simp add: parse_input_def Let_def columns_dropna drop_map)
qed

lemma parse_input_Inr:
  assumes "parse_input raw = Inr (df, w)"
  shows "24 \<le> length (rows (dropna raw)) \<and> set features \<subseteq> set (columns raw)"
proof -
  have a: "24 \<le> length (rows (dropna raw))"
    using assms by (auto simp: parse_input_def Let_def split: if_splits)
  have "set features \<subseteq> set (columns raw)"
  proof (rule ccontr)
    assume "\<not> set features \<subseteq> set (columns raw)"
    then have "\<not> set features \<subseteq> set (columns (dropna raw))"
      by (simp add: columns_dropna)
    from select_fail [OF this] assms a show False
      by (auto simp: parse_input_def Let_def)
  qed
  with a show ?thesis by simp
qed

text \<open>
  C8. When fewer than 24 rows remain after the rows with a missing value are dropped,
  the marine run exits with status 1 and writes nothing to standard output. When at
  least 24 remain (and the 19 feature columns are present, so that a window exists),
  the window is the feature columns of exactly the last 24 remaining rows, in file
  order.
\<close>

theorem last24_window:
  "(length argv = 2 \<and> read_csv env (argv ! 1) = Inr raw \<and> length (rows (dropna raw)) < 24 \<longrightarrow>
      status (marine_main env argv) = 1 \<and> stdout_lines (marine_main env argv) = []) \<and>
   (24 \<le> length (rows (dropna raw)) \<and> set features \<subseteq> set (columns raw) \<longrightarrow>
      (\<exists>w. parse_input raw = Inr (dropna raw, w))) \<and>
   (parse_input raw = Inr (df, w) \<longrightarrow>
      df = dropna raw \<and> 24 \<le> length (rows df) \<and> length w = 24 \<and>
      w = map (\<lambda>r. map (\<lambda>f. the (map_of (zip (columns raw) r) f)) features)
            (drop (length (rows df) - 24) (rows df)))"
proof -
  have a: "length argv = 2 \<and> read_csv env (argv ! 1) = Inr raw \<and> length (rows (dropna raw)) < 24 \<longrightarrow>
      status (marine_main env argv) = 1 \<and> stdout_lines (marine_main env argv) = []"
    by (auto simp: marine_main_def marine_process_def parse_input_short die_def
        sys_stderr_def stdout_lines_def split: sum.splits)
  have b: "24 \<le> length (rows (dropna raw)) \<and> set features \<subseteq> set (columns raw) \<longrightarrow>
      (\<exists>w. parse_input raw = Inr (dropna raw, w))"
    using parse_input_window [of raw] by blast
  have c: "parse_input raw = Inr (df, w) \<longrightarrow>
      df = dropna raw \<and> 24 \<le> length (rows df) \<and> length w = 24 \<and>
      w = map (\<lambda>r. map (\<lambda>f. the (map_of (zip (columns raw) r) f)) features)
            (drop (length (rows df) - 24) (rows df))"
  proof
    assume p: "parse_input raw = Inr (df, w)"
    from parse_input_Inr [OF p] have h: "24 \<le> length (rows (dropna raw))"
      "set features \<subseteq> set (columns raw)" by simp_all
    from parse_input_window [OF h] p h(1) show "df = dropna raw \<and> 24 \<le> length (rows df) \<and> length w = 24 \<and>
      w = map (\<lambda>r. map (\<lambda>f. the (map_of (zip (columns raw) r) f)) features)
            (drop (length (rows df) - 24) (rows df))"
      by auto
  qed
  from a b c show ?thesis by blast
qed

lemma calm_complete: "complete_row calm_row"
  by (simp add: calm_row_def complete_row_def)

lemma gap_incomplete: "\<not> complete_row (calm_row[8 := None])"
  by (simp add: calm_row_def complete_row_def)

lemma dropna_calm: "dropna calm_frame = \<lparr>columns = features, rows = replicate 24 (map the calm_row)\<rparr>"
  by (simp add: dropna_def calm_frame_def calm_complete)

lemma dropna_gappy: "dropna gappy_frame = \<lparr>columns = features, rows = replicate 23 (map the calm_row)\<rparr>"
  by (simp add: dropna_def gappy_frame_def calm_complete gap_incomplete)

lemma calm_fields:
  "map_of (zip features (map the calm_row)) ''YY'' = Some 2024"
  "map_of (zip features (map the calm_row)) ''MM'' = Some 1"
  "map_of (zip features (map the calm_row)) ''DD'' = Some 1"
  "map_of (zip features (map the calm_row)) ''hh'' = Some 0"
  "map_of (zip features (map the calm_row)) ''mm'' = Some 0"
  "map_of (zip features (map the calm_row)) ''station'' = Some 12"
  by (simp_all add: features_def calm_row_def)

lemma calm_time:
  "datetime_new 2024 1 1 0 0 = Inr \<lparr>year = 2024, month = 1, day = 1, hour = 0, minute = 0\<rparr>"
  by (simp add: datetime_new_def days_in_month_def DAYS_IN_MONTH_def)

lemma calm_ord: "ymd2ord 2024 1 1 = 738886"
  by (simp add: ymd2ord_def days_before_year_def days_before_month_def DAYS_BEFORE_MONTH_def)

lemma calm_back: "ord2ymd 738886 = (2024, 1, 1)"
  by (simp add: ord2ymd_def month_day_def Let_def DAYS_BEFORE_MONTH_def DAYS_IN_MONTH_def)

lemma calm_next:
  "add_minutes \<lparr>year = 2024, month = 1, day = 1, hour = 0, minute = 0\<rparr> 30
     = Inr \<lparr>year = 2024, month = 1, day = 1, hour = 0, minute = 30\<rparr>"
  by (simp add: add_minutes_def calm_ord calm_back MAXORDINAL_def Let_def)

lemma py_int_numeral [simp]: "py_int (numeral n) = numeral n" "py_int 0 = 0" "py_int 1 = 1"
  by (simp_all add: py_int_def)

lemma calm_next_time:
  "next_time features (map the calm_row)
     = Inr \<lparr>year = 2024, month = 1, day = 1, hour = 0, minute = 30\<rparr>"
  by (simp add: next_time_def row_time_def field_def calm_fields bind_exn_def calm_time calm_next)


lemma length_features: "length features = 19"
  by (simp add: features_def)

lemma length_concat_replicate: "length (concat (replicate n xs)) = n * length xs"
  by (induction n) simp_all

lemma calm_project:
  "map (\<lambda>f. the (map_of (zip features (map the calm_row)) f)) features = map the calm_row"
  by (simp add: features_def calm_row_def)

lemma calm_parse:
  "parse_input calm_frame =
     Inr (\<lparr>columns = features, rows = replicate 24 (map the calm_row)\<rparr>,
          replicate 24 (map the calm_row))"
proof -
  have n: "24 \<le> length (rows (dropna calm_frame))"
    by (simp add: dropna_calm)
  have c: "columns calm_frame = features"
    by (simp add: calm_frame_def)
  have f: "set features \<subseteq> set (columns calm_frame)"
    by (simp add: c)
  show ?thesis
    unfolding parse_input_window [OF n f] by (simp add: dropna_calm c calm_project)
qed

lemma steady_predict:
  assumes "length (concat w) = 24 * 19"
  shows "predict_step steady_lstm identity_scaler w = Inr (1, 5, 8)"
  using assms
  by (simp add: predict_step_def identity_scaler_def steady_lstm_def bind_exn_def
      reshape_window_def nth_exn_def length_features Let_def)

lemma calm_predict:
  "predict_step steady_lstm identity_scaler (replicate 24 (map the calm_row)) = Inr (1, 5, 8)"
  by (rule steady_predict) (simp add: length_concat_replicate calm_row_def)

lemma calm_last: "last_row \<lparr>columns = features, rows = replicate 24 (map the calm_row)\<rparr>
   = Inr (map the calm_row)"
  by (simp add: last_row_def nth_exn_def)

lemma calm_run:
  "marine_main calm_env [''predict.py'', ''data.csv''] =
     \<lparr>writes =
        [(Stdout, Text marine_header),
         (Stdout, MarineRow (marine_report 1 5 8
            \<lparr>year = 2024, month = 1, day = 1, hour = 0, minute = 30\<rparr> 12))],
      status = 0\<rparr>"
  by (simp add: marine_main_def calm_env_def marine_process_def calm_parse calm_predict
      calm_last bind_exn_def calm_next_time field_def calm_fields)

lemma calm_report:
  "marine_report 1 5 8 t 12 =
     \<lparr>out_time = t, out_wvht_m = 1, out_wvht_ft = 3.28084,
      out_wave_level = ''Waves normal (<5 ft)'',
      out_wspd_ms = 5, out_wspd_kt = 9.7192, out_wind_level = wind_normal_label,
      out_dpd_s = 8, out_advice = safe_advice, out_station = 12\<rparr>"
proof -
  have w: "wave_alert (wvht_ft 1) 8 = ''Waves normal (<5 ft)''"
    by (simp add: wave_alert_def wvht_ft_def)
  have k: "wind_alert (wspd_kt 5) = wind_normal_label"
    by (simp add: wind_alert_def wspd_kt_def)
  have a: "advice ''Waves normal (<5 ft)'' wind_normal_label = safe_advice"
    by (simp add: advice_def wind_prefix_table sublist_code)
  show ?thesis
    by (simp add: marine_report_def Let_def w k a) (simp add: wvht_ft_def wspd_kt_def)
qed



lemma length_permute: "is_perm p n \<Longrightarrow> length (permute p xs) = n"
  by (simp add: permute_def is_perm_def)

















lemma gappy_short: "length (rows (dropna gappy_frame)) = 23"
  by (simp add: dropna_gappy)

lemma gappy_read: "read_csv gappy_env ([''predict.py'', ''data.csv''] ! 1) = Inr gappy_frame"
  by (simp add: gappy_env_def)

theorem last24_window_witness:
  "length (rows (dropna gappy_frame)) = 23 \<and>
   status (marine_main gappy_env [''predict.py'', ''data.csv'']) = 1 \<and>
   stdout_lines (marine_main gappy_env [''predict.py'', ''data.csv'']) = [] \<and>
   length (rows (dropna calm_frame)) = 24 \<and>
   parse_input calm_frame = Inr (dropna calm_frame, replicate 24 (map the calm_row))"
proof -
  have a: "status (marine_main gappy_env [''predict.py'', ''data.csv'']) = 1 \<and>
   stdout_lines (marine_main gappy_env [''predict.py'', ''data.csv'']) = []"
    using last24_window [of "[''predict.py'', ''data.csv'']" gappy_env gappy_frame]
      gappy_short gappy_read by simp
  have p: "parse_input calm_frame =
      Inr (\<lparr>columns = features, rows = replicate 24 (map the calm_row)\<rparr>,
           replicate 24 (map the calm_row))"
    by (rule calm_parse)
  have b: "length (replicate 24 (map the calm_row)) = 24"
    using last24_window [of _ _ calm_frame
        "\<lparr>columns = features, rows = replicate 24 (map the calm_row)\<rparr>"
        "replicate 24 (map the calm_row)"] p by blast
  show ?thesis
    using a b p gappy_short by (simp add: dropna_calm)
qed

section \<open>The forecast timestamp\<close>

lemma days_before_year_digits:
  fixes a b c e :: int
  assumes "0 \<le> a" "0 \<le> b" "b \<le> 3" "0 \<le> c" "c \<le> 24" "0 \<le> e" "e \<le> 3"
  shows "days_before_year (400 * a + 100 * b + 4 * c + e + 1)
           = 146097 * a + 36524 * b + 1461 * c + 365 * e"
proof -
  define z where "z = 400 * a + 100 * b + 4 * c + e"
  have d4: "z div 4 = 100 * a + 25 * b + c"
    using assms unfolding z_def by (intro int_div_pos_eq [where r = e]) simp_all
  have d100: "z div 100 = 4 * a + b"
    using assms unfolding z_def by (intro int_div_pos_eq [where r = "4 * c + e"]) simp_all
  have d400: "z div 400 = a"
    using assms unfolding z_def
    by (intro int_div_pos_eq [where r = "100 * b + 4 * c + e"]) simp_all
  have "days_before_year (z + 1) = z * 365 + z div 4 - z div 100 + z div 400"
    by (simp add: days_before_year_def Let_def)
  also have "\<dots> = 146097 * a + 36524 * b + 1461 * c + 365 * e"
    unfolding d4 d100 d400 by (simp add: z_def)
  finally show ?thesis by (simp add: z_def)
qed

lemma is_leap_digits:
  fixes a b c e :: int
  assumes "0 \<le> a" "0 \<le> b" "b \<le> 3" "0 \<le> c" "c \<le> 24" "0 \<le> e" "e \<le> 3"
  shows "is_leap (400 * a + 100 * b + 4 * c + e + 1) \<longleftrightarrow> e = 3 \<and> (c \<noteq> 24 \<or> b = 3)"
proof -
  define y where "y = 400 * a + 100 * b + 4 * c + e + 1"
  have "is_leap y \<longleftrightarrow> e = 3 \<and> (c \<noteq> 24 \<or> b = 3)"
  proof (cases "e = 3")
    case False
    then have "y mod 4 = e + 1"
      using assms unfolding y_def
      by (intro int_mod_pos_eq [where q = "100 * a + 25 * b + c"]) simp_all
    then show ?thesis
      using False assms by (simp add: is_leap_def)
  next
    case e3: True
    have m4: "y mod 4 = 0"
      using assms e3 unfolding y_def
      by (intro int_mod_pos_eq [where q = "100 * a + 25 * b + c + 1"]) simp_all
    show ?thesis
    proof (cases "c = 24")
      case False
      then have "y mod 100 = 4 * (c + 1)"
        using assms e3 unfolding y_def
        by (intro int_mod_pos_eq [where q = "4 * a + b"]) simp_all
      then show ?thesis
        using False e3 m4 assms by (simp add: is_leap_def)
    next
      case c24: True
      have m100: "y mod 100 = 0"
        using assms e3 c24 unfolding y_def
        by (intro int_mod_pos_eq [where q = "4 * a + b + 1"]) simp_all
      show ?thesis
      proof (cases "b = 3")
        case True
        have "y mod 400 = 0"
          using assms e3 c24 True unfolding y_def
          by (intro int_mod_pos_eq [where q = "a + 1"]) simp_all
        then show ?thesis
          using True e3 c24 m4 by (simp add: is_leap_def)
      next
        case False
        then have "y mod 400 = 100 * (b + 1)"
          using assms e3 c24 unfolding y_def
          by (intro int_mod_pos_eq [where q = a]) simp_all
        then show ?thesis
          using False e3 c24 m4 m100 assms by (simp add: is_leap_def)
      qed
    qed
  qed
  then show ?thesis by (simp only: y_def)
qed


lemma month_day_ok:
  fixes n :: int
  assumes n: "0 \<le> n" "n \<le> 364" and L: "is_leap y = L"
  shows "case month_day L n of (m, d) \<Rightarrow>
           1 \<le> m \<and> m \<le> 12 \<and> 1 \<le> d \<and> d \<le> days_in_month y m
           \<and> days_before_month y m + d = n + 1"
proof -
  define m where "m = (n + 50) div 32"
  have lo: "32 * m \<le> n + 50" and hi: "n + 50 < 32 * m + 32"
    unfolding m_def by simp_all
  then have "1 \<le> m" "m \<le> 12"
    using n by simp_all
  then have "m = 1 \<or> m = 2 \<or> m = 3 \<or> m = 4 \<or> m = 5 \<or> m = 6 \<or> m = 7
    \<or> m = 8 \<or> m = 9 \<or> m = 10 \<or> m = 11 \<or> m = 12"
    by arith
  then consider "m = 1" | "m = 2" | "m = 3" | "m = 4" | "m = 5" | "m = 6" | "m = 7"
    | "m = 8" | "m = 9" | "m = 10" | "m = 11" | "m = 12"
    by blast
  then show ?thesis
    using lo hi n L
    by cases
      (auto simp: month_day_def Let_def m_def [symmetric] DAYS_BEFORE_MONTH_def
         DAYS_IN_MONTH_def days_in_month_def days_before_month_def)
qed


lemma ord2ymd_roundtrip:
  assumes n: "1 \<le> n" "n \<le> MAXORDINAL"
  shows "case ord2ymd n of (y, m, d) \<Rightarrow>
           1 \<le> y \<and> y \<le> 9999 \<and> 1 \<le> m \<and> m \<le> 12 \<and> 1 \<le> d \<and> d \<le> days_in_month y m
           \<and> ymd2ord y m d = n"
proof -
  define a where "a = (n - 1) div 146097"
  define r1 where "r1 = (n - 1) mod 146097"
  define b where "b = r1 div 36524"
  define r2 where "r2 = r1 mod 36524"
  define c where "c = r2 div 1461"
  define r3 where "r3 = r2 mod 1461"
  define e where "e = r3 div 365"
  define r4 where "r4 = r3 mod 365"
  have s1: "n - 1 = 146097 * a + r1" "0 \<le> r1" "r1 < 146097"
    by (simp_all add: a_def r1_def)
  have s2: "r1 = 36524 * b + r2" "0 \<le> r2" "r2 < 36524"
    by (simp_all add: b_def r2_def)
  have s3: "r2 = 1461 * c + r3" "0 \<le> r3" "r3 < 1461"
    by (simp_all add: c_def r3_def)
  have s4: "r3 = 365 * e + r4" "0 \<le> r4" "r4 < 365"
    by (simp_all add: e_def r4_def)
  have a0: "0 \<le> a"
    using n by (simp add: a_def pos_imp_zdiv_nonneg_iff)
  have b0: "0 \<le> b"
    using s1(2) by (simp add: b_def pos_imp_zdiv_nonneg_iff)
  have c0: "0 \<le> c"
    using s2(2) by (simp add: c_def pos_imp_zdiv_nonneg_iff)
  have e0: "0 \<le> e"
    using s3(2) by (simp add: e_def pos_imp_zdiv_nonneg_iff)
  have a24: "a \<le> 24"
    using n s1 by (simp add: MAXORDINAL_def)
  have b4: "b \<le> 4"
    using s1 s2 by arith
  have c24: "c \<le> 24"
    using s2 s3 by arith
  have e4: "e \<le> 4"
    using s3 s4 by arith
  define y where "y = 400 * a + 100 * b + 4 * c + e + 1"
  have unfold: "ord2ymd n =
      (if e = 4 \<or> b = 4 then (y - 1, 12, 31)
       else (case month_day (e = 3 \<and> (c \<noteq> 24 \<or> b = 3)) r4 of (m, d) \<Rightarrow> (y, m, d)))"
    by (simp add: ord2ymd_def Let_def a_def r1_def b_def r2_def c_def r3_def e_def r4_def
        y_def)
  have last_day: "case (y - 1, 12, 31) of (y, m, d) \<Rightarrow>
           1 \<le> y \<and> y \<le> 9999 \<and> 1 \<le> m \<and> m \<le> 12 \<and> 1 \<le> d \<and> d \<le> days_in_month y m
           \<and> ymd2ord y m d = n"
    if dby: "days_before_year (y - 1) + 366 = n" and leap: "is_leap (y - 1)"
      and range: "1 \<le> y - 1" "y - 1 \<le> 9999"
    using that
    by (simp add: ymd2ord_def days_in_month_def days_before_month_def
        DAYS_IN_MONTH_def DAYS_BEFORE_MONTH_def)
  show ?thesis
  proof (cases "b = 4")
    case True
    then have z: "r2 = 0" "c = 0" "r3 = 0" "e = 0" "r4 = 0"
      using s1 s2 s3 s4 c0 e0 by simp_all
    have a23: "a \<le> 23"
      using n s1 s2 True z by (simp add: MAXORDINAL_def)
    have eq: "y - 1 = 400 * a + 100 * 3 + 4 * 24 + 3 + 1"
      using True z by (simp add: y_def)
    have "days_before_year (y - 1) = 146097 * a + 36524 * 3 + 1461 * 24 + 365 * 3"
      unfolding eq using a0 by (intro days_before_year_digits) simp_all
    then have dby: "days_before_year (y - 1) + 366 = n"
      using s1 s2 True z by simp
    have leap: "is_leap (y - 1)"
      unfolding eq using a0 is_leap_digits [of a 3 24 3] by simp
    have range: "1 \<le> y - 1" "y - 1 \<le> 9999"
      using a0 a23 by (simp_all add: eq)
    show ?thesis
      unfolding unfold using True last_day [OF dby leap range] by simp
  next
    case False
    then have b3: "b \<le> 3" using b4 by simp
    show ?thesis
    proof (cases "e = 4")
      case True
      then have z: "r4 = 0" "r3 = 1460"
        using s3 s4 by simp_all
      have c23: "c \<le> 23"
        using s2(3) s3(1) z(2) by arith
      have eq: "y - 1 = 400 * a + 100 * b + 4 * c + 3 + 1"
        using True by (simp add: y_def)
      have "days_before_year (y - 1) = 146097 * a + 36524 * b + 1461 * c + 365 * 3"
        unfolding eq using a0 b0 b3 c0 c23 by (intro days_before_year_digits) simp_all
      then have dby: "days_before_year (y - 1) + 366 = n"
        using s1 s2 s3 z by simp
      have leap: "is_leap (y - 1)"
        unfolding eq using a0 b0 b3 c0 c23 is_leap_digits [of a b c 3] by simp
      have range: "1 \<le> y - 1" "y - 1 \<le> 9999"
        using a0 a24 b0 b3 c0 c23 by (simp_all add: eq)
      show ?thesis
        unfolding unfold using True last_day [OF dby leap range] by simp
    next
      case e4': False
      then have e3: "e \<le> 3" using e4 by simp
      define L where "L \<longleftrightarrow> e = 3 \<and> (c \<noteq> 24 \<or> b = 3)"
      have dby: "days_before_year y = 146097 * a + 36524 * b + 1461 * c + 365 * e"
        unfolding y_def using a0 b0 b3 c0 c24 e0 e3 by (intro days_before_year_digits)
      have leap: "is_leap y = L"
        unfolding y_def L_def using a0 b0 b3 c0 c24 e0 e3 by (intro is_leap_digits)
      have r4: "0 \<le> r4" "r4 \<le> 364"
        using s4 by simp_all
      have ytop: "y \<le> 9999"
      proof (rule ccontr)
        assume "\<not> y \<le> 9999"
        then have "400 * a + 100 * b + 4 * c + e \<ge> 9999"
          by (simp add: y_def)
        then have "a = 24 \<and> b = 3 \<and> c = 24 \<and> e = 3"
          using a24 b3 c24 e3 by arith
        then show False
          using n s1 s2 s3 s4 by (simp add: MAXORDINAL_def)
      qed
      have ybot: "1 \<le> y"
        using a0 b0 c0 e0 by (simp add: y_def)
      obtain m d where md: "month_day L r4 = (m, d)"
        by (cases "month_day L r4")
      from month_day_ok [OF r4 leap] md
      have ok: "1 \<le> m" "m \<le> 12" "1 \<le> d" "d \<le> days_in_month y m"
        "days_before_month y m + d = r4 + 1"
        by simp_all
      have "ymd2ord y m d = n"
        using dby ok(5) s1 s2 s3 s4 by (simp add: ymd2ord_def)
      then show ?thesis
        unfolding unfold L_def [symmetric] using False e4' md ok ytop ybot by simp
    qed
  qed
qed

lemma days_before_year_nonneg: "1 \<le> y \<Longrightarrow> 0 \<le> days_before_year y"
proof -
  assume "1 \<le> y"
  then have z: "0 \<le> y - 1" by simp
  have "(y - 1) div 100 \<le> (y - 1) div 4"
    using z by (intro zdiv_mono2) simp_all
  moreover have "0 \<le> (y - 1) div 400"
    using z by (simp add: pos_imp_zdiv_nonneg_iff)
  ultimately show ?thesis
    using z by (simp add: days_before_year_def Let_def)
qed

lemma days_before_month_nonneg: "1 \<le> m \<Longrightarrow> m \<le> 12 \<Longrightarrow> 0 \<le> days_before_month y m"
proof -
  assume "1 \<le> m" "m \<le> 12"
  then have "m = 1 \<or> m = 2 \<or> m = 3 \<or> m = 4 \<or> m = 5 \<or> m = 6 \<or> m = 7
    \<or> m = 8 \<or> m = 9 \<or> m = 10 \<or> m = 11 \<or> m = 12"
    by arith
  then show ?thesis
    by (auto simp: days_before_month_def DAYS_BEFORE_MONTH_def)
qed

lemma ymd2ord_pos:
  "valid_datetime t \<Longrightarrow> 1 \<le> ymd2ord (year t) (month t) (day t)"
  using days_before_year_nonneg [of "year t"]
    days_before_month_nonneg [of "month t" "year t"]
  by (simp add: valid_datetime_def ymd2ord_def)

lemma add_minutes_30:
  assumes v: "valid_datetime t"
    and r: "minutes_of t + 30 < (MAXORDINAL + 1) * 1440"
  shows "\<exists>t'. add_minutes t 30 = Inr t' \<and> valid_datetime t' \<and>
           minutes_of t' = minutes_of t + 30"
proof -
  define N where "N = ymd2ord (year t) (month t) (day t)"
  define M where "M = minutes_of t + 30"
  define days where "days = M div 1440"
  define rest where "rest = M mod 1440"
  have N1: "1 \<le> N"
    using v by (simp add: N_def ymd2ord_pos)
  have hm: "0 \<le> hour t" "hour t \<le> 23" "0 \<le> minute t" "minute t \<le> 59"
    using v by (simp_all add: valid_datetime_def)
  have M: "M = N * 1440 + hour t * 60 + minute t + 30"
    by (simp add: M_def minutes_of_def N_def)
  have total: "N * 86400 + hour t * 3600 + minute t * 60 + 1800 = 60 * M"
    by (simp add: M)
  have d: "(60 * M) div 86400 = days"
  proof -
    have "(60 * M) div (60 * 1440) = M div 1440"
      by (rule div_mult_mult1) simp
    then show ?thesis by (simp add: days_def)
  qed
  have s: "(60 * M) mod 86400 = 60 * rest"
  proof -
    have "(60 * M) mod (60 * 1440) = 60 * (M mod 1440)"
      by (rule mod_mult_mult1)
    then show ?thesis by (simp add: rest_def)
  qed
  have rest: "0 \<le> rest" "rest < 1440" "M = days * 1440 + rest"
    by (simp_all add: rest_def days_def)
  have dlo: "1 \<le> days"
    using N1 hm M rest by arith
  have dhi: "days \<le> MAXORDINAL"
    using r rest by (simp add: M_def [symmetric] MAXORDINAL_def)
  define h' where "h' = rest div 60"
  define mi' where "mi' = rest mod 60"
  have h': "(60 * rest) div 3600 = h'"
  proof -
    have "(60 * rest) div (60 * 60) = rest div 60"
      by (rule div_mult_mult1) simp
    then show ?thesis by (simp add: h'_def)
  qed
  have mi': "((60 * rest) mod 3600) div 60 = mi'"
  proof -
    have "(60 * rest) mod (60 * 60) = 60 * (rest mod 60)"
      by (rule mod_mult_mult1)
    then show ?thesis by (simp add: mi'_def)
  qed
  have hm': "0 \<le> h'" "h' \<le> 23" "0 \<le> mi'" "mi' \<le> 59" "rest = h' * 60 + mi'"
    using rest by (simp_all add: h'_def mi'_def pos_imp_zdiv_nonneg_iff)
  obtain y m dd where o: "ord2ymd days = (y, m, dd)"
    by (cases "ord2ymd days") auto
  from ord2ymd_roundtrip [OF dlo dhi] o
  have ok: "1 \<le> y" "y \<le> 9999" "1 \<le> m" "m \<le> 12" "1 \<le> dd" "dd \<le> days_in_month y m"
    "ymd2ord y m dd = days"
    by simp_all
  define t' where "t' = \<lparr>year = y, month = m, day = dd, hour = h', minute = mi'\<rparr>"
  have "add_minutes t 30 = Inr t'"
    using dlo dhi o
    by (simp add: add_minutes_def Let_def N_def [symmetric] total d s h' mi' t'_def)
  moreover have "valid_datetime t'"
    using ok hm' by (simp add: valid_datetime_def t'_def)
  moreover have "minutes_of t' = minutes_of t + 30"
    using ok(7) hm'(5) rest(3) M by (simp add: minutes_of_def t'_def N_def)
  ultimately show ?thesis by blast
qed

lemma add_minutes_overflow:
  assumes v: "valid_datetime t"
    and r: "(MAXORDINAL + 1) * 1440 \<le> minutes_of t + 30"
  shows "add_minutes t 30 = Inl (OverflowError ''date value out of range'')"
proof -
  define N where "N = ymd2ord (year t) (month t) (day t)"
  define M where "M = minutes_of t + 30"
  have M: "M = N * 1440 + hour t * 60 + minute t + 30"
    by (simp add: M_def minutes_of_def N_def)
  have total: "N * 86400 + hour t * 3600 + minute t * 60 + 1800 = 60 * M"
    by (simp add: M)
  have "(60 * M) div (60 * 1440) = M div 1440"
    by (rule div_mult_mult1) simp
  then have d: "(60 * M) div 86400 = M div 1440" by simp
  have "(MAXORDINAL + 1) * 1440 div 1440 \<le> M div 1440"
    using r unfolding M_def by (intro zdiv_mono1) simp_all
  then have "MAXORDINAL < M div 1440" by simp
  then show ?thesis
    by (simp add: add_minutes_def Let_def N_def [symmetric] total d)
qed

lemma datetime_new_valid:
  "valid_datetime \<lparr>year = y, month = m, day = d, hour = h, minute = mi\<rparr> \<Longrightarrow>
     datetime_new y m d h mi = Inr \<lparr>year = y, month = m, day = d, hour = h, minute = mi\<rparr>"
  by (simp add: valid_datetime_def datetime_new_def)

lemma datetime_new_invalid:
  "\<not> valid_datetime \<lparr>year = y, month = m, day = d, hour = h, minute = mi\<rparr> \<Longrightarrow>
     \<exists>s. datetime_new y m d h mi = Inl (ValueError s)"
  by (auto simp: valid_datetime_def datetime_new_def)

lemma row_time_fields:
  assumes "field cols row ''YY'' = Inr yy" "field cols row ''MM'' = Inr mm"
    "field cols row ''DD'' = Inr dd" "field cols row ''hh'' = Inr hh"
    "field cols row ''mm'' = Inr mi"
  shows "row_time cols row =
     datetime_new (py_int yy) (py_int mm) (py_int dd) (py_int hh) (py_int mi)"
  using assms by (simp add: row_time_def bind_exn_def)

lemma marine_process_time:
  assumes "parse_input raw = Inr (df, w)" "last_row df = Inr row"
  shows "(next_time (columns df) row = Inl e \<longrightarrow>
            status (marine_process model sc raw) = 1 \<and>
            stdout_lines (marine_process model sc raw) = []) \<and>
         (next_time (columns df) row = Inr t' \<longrightarrow>
            status (marine_process model sc raw) = 0 \<longrightarrow>
            (\<exists>r. stdout_lines (marine_process model sc raw)
                   = [Text marine_header, MarineRow r] \<and> out_time r = t'))"
  using assms
  by (auto simp: marine_process_def bind_exn_def die_def crash_def stdout_lines_def
      sys_stderr_def marine_report_def Let_def split: sum.splits prod.splits)

text \<open>
  C9 (as amended). Let the last row hold the fields YY, MM, DD, hh, mm, truncated to
  integers. If they form a valid date and time whose instant plus 30 minutes is still
  within year 9999, the forecast timestamp is a valid date and time exactly 30 minutes
  later, and it is the timestamp a successful run prints. If they do not form a valid
  date and time, or the instant lies within the last 30 minutes of 9999-12-31 (the
  addition overflows the range of \<open>datetime\<close>), the run is fatal: status 1 and nothing on
  standard output.
\<close>

theorem forecast_time:
  assumes "parse_input raw = Inr (df, w)" "last_row df = Inr row"
    and "field (columns df) row ''YY'' = Inr yy" "field (columns df) row ''MM'' = Inr mm"
    and "field (columns df) row ''DD'' = Inr dd" "field (columns df) row ''hh'' = Inr hh"
    and "field (columns df) row ''mm'' = Inr mi"
    and "t0 = \<lparr>year = py_int yy, month = py_int mm, day = py_int dd,
               hour = py_int hh, minute = py_int mi\<rparr>"
    and "run = marine_process model sc raw"
  shows "(valid_datetime t0 \<and> minutes_of t0 + 30 < (MAXORDINAL + 1) * 1440 \<longrightarrow>
           (\<exists>t'. next_time (columns df) row = Inr t' \<and> valid_datetime t' \<and>
                 minutes_of t' = minutes_of t0 + 30 \<and>
                 (status run = 0 \<longrightarrow>
                    (\<exists>r. stdout_lines run = [Text marine_header, MarineRow r] \<and>
                         out_time r = t')))) \<and>
         (\<not> valid_datetime t0 \<or> (MAXORDINAL + 1) * 1440 \<le> minutes_of t0 + 30 \<longrightarrow>
            status run = 1 \<and> stdout_lines run = [])"
proof -
  have rt: "row_time (columns df) row =
      datetime_new (py_int yy) (py_int mm) (py_int dd) (py_int hh) (py_int mi)"
    using assms(3-7) by (rule row_time_fields)
  note pt = marine_process_time [OF assms(1,2), of _ model sc, folded assms(9)]
  have a: "\<exists>t'. next_time (columns df) row = Inr t' \<and> valid_datetime t' \<and>
                 minutes_of t' = minutes_of t0 + 30 \<and>
                 (status run = 0 \<longrightarrow>
                    (\<exists>r. stdout_lines run = [Text marine_header, MarineRow r] \<and>
                         out_time r = t'))"
    if v: "valid_datetime t0" and r: "minutes_of t0 + 30 < (MAXORDINAL + 1) * 1440"
  proof -
    have "row_time (columns df) row = Inr t0"
      using v unfolding rt assms(8) by (rule datetime_new_valid)
    then have n: "next_time (columns df) row = add_minutes t0 30"
      by (simp add: next_time_def bind_exn_def)
    from add_minutes_30 [OF v r] obtain t' where t':
      "add_minutes t0 30 = Inr t'" "valid_datetime t'" "minutes_of t' = minutes_of t0 + 30"
      by blast
    with n pt show ?thesis by auto
  qed
  have b: "status run = 1 \<and> stdout_lines run = []"
    if "\<not> valid_datetime t0 \<or> (MAXORDINAL + 1) * 1440 \<le> minutes_of t0 + 30"
  proof (cases "valid_datetime t0")
    case False
    then obtain s where "row_time (columns df) row = Inl (ValueError s)"
      unfolding rt assms(8) using datetime_new_invalid by blast
    then have "next_time (columns df) row = Inl (ValueError s)"
      by (simp add: next_time_def bind_exn_def)
    with pt show ?thesis by blast
  next
    case True
    then have "row_time (columns df) row = Inr t0"
      unfolding rt assms(8) by (rule datetime_new_valid)
    then have "next_time (columns df) row = add_minutes t0 30"
      by (simp add: next_time_def bind_exn_def)
    with add_minutes_overflow [OF True] that True pt show ?thesis by auto
  qed
  from a b show ?thesis by blast
qed


lemma calm_valid:
  "valid_datetime \<lparr>year = 2024, month = 1, day = 1, hour = 0, minute = 0\<rparr>"
  by (simp add: valid_datetime_def days_in_month_def DAYS_IN_MONTH_def)

lemma calm_minutes:
  "minutes_of \<lparr>year = 2024, month = 1, day = 1, hour = 0, minute = 0\<rparr> = 738886 * 1440"
  by (simp add: minutes_of_def calm_ord)

lemma calm_field_values:
  "field features (map the calm_row) ''YY'' = Inr 2024"
  "field features (map the calm_row) ''MM'' = Inr 1"
  "field features (map the calm_row) ''DD'' = Inr 1"
  "field features (map the calm_row) ''hh'' = Inr 0"
  "field features (map the calm_row) ''mm'' = Inr 0"
  by (simp_all add: field_def calm_fields)

lemma late_complete: "complete_row late_row"
  by (simp add: late_row_def complete_row_def)

lemma dropna_late:
  "dropna late_frame = \<lparr>columns = features, rows = replicate 24 (map the late_row)\<rparr>"
  by (simp add: dropna_def late_frame_def late_complete)

lemma late_project:
  "map (\<lambda>f. the (map_of (zip features (map the late_row)) f)) features = map the late_row"
  by (simp add: features_def late_row_def)

lemma late_parse:
  "parse_input late_frame =
     Inr (\<lparr>columns = features, rows = replicate 24 (map the late_row)\<rparr>,
          replicate 24 (map the late_row))"
proof -
  have n: "24 \<le> length (rows (dropna late_frame))"
    by (simp add: dropna_late)
  have c: "columns late_frame = features"
    by (simp add: late_frame_def)
  have f: "set features \<subseteq> set (columns late_frame)"
    by (simp add: c)
  show ?thesis
    unfolding parse_input_window [OF n f] by (simp add: dropna_late c late_project)
qed

lemma late_predict:
  "predict_step steady_lstm identity_scaler (replicate 24 (map the late_row)) = Inr (1, 5, 8)"
  by (rule steady_predict) (simp add: length_concat_replicate late_row_def)

lemma late_last: "last_row \<lparr>columns = features, rows = replicate 24 (map the late_row)\<rparr>
   = Inr (map the late_row)"
  by (simp add: last_row_def nth_exn_def)

lemma late_field_values:
  "field features (map the late_row) ''YY'' = Inr 9999"
  "field features (map the late_row) ''MM'' = Inr 12"
  "field features (map the late_row) ''DD'' = Inr 31"
  "field features (map the late_row) ''hh'' = Inr 23"
  "field features (map the late_row) ''mm'' = Inr 30"
  by (simp_all add: field_def features_def late_row_def)

lemma late_valid:
  "valid_datetime \<lparr>year = 9999, month = 12, day = 31, hour = 23, minute = 30\<rparr>"
  by (simp add: valid_datetime_def days_in_month_def DAYS_IN_MONTH_def)

lemma late_ord: "ymd2ord 9999 12 31 = 3652059"
  by (simp add: ymd2ord_def days_before_year_def days_before_month_def DAYS_BEFORE_MONTH_def
      is_leap_def)

lemma late_minutes:
  "minutes_of \<lparr>year = 9999, month = 12, day = 31, hour = 23, minute = 30\<rparr>
     = 3652059 * 1440 + 1410"
  by (simp add: minutes_of_def late_ord)

lemma late_time:
  "datetime_new 9999 12 31 23 30
     = Inr \<lparr>year = 9999, month = 12, day = 31, hour = 23, minute = 30\<rparr>"
  using late_valid by (rule datetime_new_valid)

lemma late_overflow:
  "add_minutes \<lparr>year = 9999, month = 12, day = 31, hour = 23, minute = 30\<rparr> 30
     = Inl (OverflowError ''date value out of range'')"
  by (simp add: add_minutes_def Let_def late_ord MAXORDINAL_def)

lemma late_next_time:
  "next_time features (map the late_row)
     = Inl (OverflowError ''date value out of range'')"
  by (simp add: next_time_def row_time_fields [OF late_field_values] bind_exn_def
      late_time late_overflow)

text \<open>
  The claim of C9 fails on a last row dated 9999-12-31 23:30: the fields form a valid
  date and time, yet there is no forecast timestamp and the run is fatal.
\<close>

theorem forecast_time_counterexample:
  "valid_datetime \<lparr>year = 9999, month = 12, day = 31, hour = 23, minute = 30\<rparr> \<and>
   row_time features (map the late_row)
     = Inr \<lparr>year = 9999, month = 12, day = 31, hour = 23, minute = 30\<rparr> \<and>
   marine_main late_env [''predict.py'', ''data.csv''] =
     \<lparr>writes = [(Devnull, Failed ''Time parsing failed: ''
                  (OverflowError ''date value out of range''))],
      status = 1\<rparr>"
proof -
  have "marine_main late_env [''predict.py'', ''data.csv''] =
     \<lparr>writes = [(Devnull, Failed ''Time parsing failed: ''
                  (OverflowError ''date value out of range''))],
      status = 1\<rparr>"
    by (simp add: marine_main_def late_env_def marine_process_def late_parse late_predict
        late_last bind_exn_def late_next_time die_def sys_stderr_def)
  then show ?thesis
    using late_valid by (simp add: row_time_fields [OF late_field_values] late_time)
qed

theorem forecast_time_witness:
  "valid_datetime \<lparr>year = 2024, month = 1, day = 1, hour = 0, minute = 0\<rparr> \<and>
   next_time features (map the calm_row)
     = Inr \<lparr>year = 2024, month = 1, day = 1, hour = 0, minute = 30\<rparr> \<and>
   valid_datetime \<lparr>year = 2024, month = 1, day = 1, hour = 0, minute = 30\<rparr> \<and>
   minutes_of \<lparr>year = 2024, month = 1, day = 1, hour = 0, minute = 30\<rparr>
     = minutes_of \<lparr>year = 2024, month = 1, day = 1, hour = 0, minute = 0\<rparr> + 30 \<and>
   status (marine_process steady_lstm identity_scaler late_frame) = 1 \<and>
   stdout_lines (marine_process steady_lstm identity_scaler late_frame) = []"
proof -
  have r: "minutes_of \<lparr>year = 2024, month = 1, day = 1, hour = 0, minute = 0\<rparr> + 30
      < (MAXORDINAL + 1) * 1440"
    by (simp add: calm_minutes MAXORDINAL_def)
  have c: "columns \<lparr>columns = features, rows = replicate 24 (map the calm_row)\<rparr> = features"
    by simp
  note calm = forecast_time [OF calm_parse calm_last, unfolded c, OF calm_field_values,
      of "\<lparr>year = 2024, month = 1, day = 1, hour = 0, minute = 0\<rparr>"
         "marine_process steady_lstm identity_scaler calm_frame" steady_lstm identity_scaler]
  have a: "valid_datetime \<lparr>year = 2024, month = 1, day = 1, hour = 0, minute = 30\<rparr> \<and>
     minutes_of \<lparr>year = 2024, month = 1, day = 1, hour = 0, minute = 30\<rparr>
       = minutes_of \<lparr>year = 2024, month = 1, day = 1, hour = 0, minute = 0\<rparr> + 30"
    using calm calm_valid r calm_next_time by simp
  have l: "(MAXORDINAL + 1) * 1440
      \<le> minutes_of \<lparr>year = 9999, month = 12, day = 31, hour = 23, minute = 30\<rparr> + 30"
    by (simp add: late_minutes MAXORDINAL_def)
  have c': "columns \<lparr>columns = features, rows = replicate 24 (map the late_row)\<rparr> = features"
    by simp
  note late = forecast_time [OF late_parse late_last, unfolded c', OF late_field_values,
      of "\<lparr>year = 9999, month = 12, day = 31, hour = 23, minute = 30\<rparr>"
         "marine_process steady_lstm identity_scaler late_frame" steady_lstm identity_scaler]
  have b: "status (marine_process steady_lstm identity_scaler late_frame) = 1 \<and>
     stdout_lines (marine_process steady_lstm identity_scaler late_frame) = []"
    using late l by simp
  from a b calm_valid calm_next_time show ?thesis by simp
qed

section \<open>The rogue-wave run, and the runs as a whole\<close>

lemma fsub_fin: "fsub (Fin a) (Fin b) = Fin (a - b)"
  by (simp add: fsub_def)

lemma amax_two: "amax [Fin a, Fin b] = Fin (max a b)"
  by (simp add: amax_def fmax_def max_def)

lemma softmax_fin:
  "softmax [Fin a, Fin b] =
     [Fin (exp (a - max a b) / (exp (a - max a b) + exp (b - max a b))),
      Fin (exp (b - max a b) / (exp (a - max a b) + exp (b - max a b)))]"
proof -
  have pos: "exp (a - max a b) + exp (b - max a b) \<noteq> 0"
    using exp_gt_zero [of "a - max a b"] exp_gt_zero [of "b - max a b"] by linarith
  show ?thesis
    using pos by (simp add: softmax_def amax_two fsub_fin fsum_def Let_def)
qed

lemma argmax_two:
  "argmax [Fin p, Fin q] = (if p < q then 1 else 0)"
  by (simp add: argmax_def amax_two max_def)

lemma softmax_warnings_fin: "softmax_warnings [[Fin a, Fin b]] = []"
  by (simp add: softmax_warnings_def)


lemma mean_replicate: "0 < n \<Longrightarrow> mean (replicate n c) = c"
  by (simp add: mean_def sum_list_replicate)

lemma exact_std_constant: "exact_std (replicate n c) = 0"
proof (cases "n = 0")
  case True
  then show ?thesis by (simp add: exact_std_def mean_def)
next
  case False
  then have "mean (replicate n c) = c" by (simp add: mean_replicate)
  then show ?thesis
    by (simp add: exact_std_def mean_def sum_list_replicate)
qed

lemma exact_std_swell: "exact_std (replicate 768 1 @ replicate 768 (- 1)) = 1"
proof -
  have m: "mean (replicate 768 1 @ replicate 768 (- 1)) = 0"
    by (simp add: mean_def sum_list_replicate)
  show ?thesis
    by (simp add: exact_std_def m) (simp add: mean_def sum_list_replicate)
qed

lemma zdisp_norm_zero:
  "zdisp_norm (Fin 0) zdisp = map (\<lambda>x. if x = 0 then NaN else if 0 < x then PInf else NInf) zdisp"
  by (simp add: zdisp_norm_def)

lemma length_zdisp_norm: "length (zdisp_norm swh z) = length z"
  by (simp add: zdisp_norm_def)

lemma swh_zero: "significant_wave_height (Fin 0) = Fin 0"
  by (simp add: significant_wave_height_def)

lemma divide_warnings_zero:
  "zdisp \<noteq> [] \<Longrightarrow> divide_warnings (Fin 0) zdisp \<noteq> []"
  by (cases zdisp) (auto simp: divide_warnings_def)

lemma softmax_nan: "softmax [NaN, NaN] = [NaN, NaN]"
  by (simp add: softmax_def amax_def fmax_def fsub_def fsum_def)


lemma softmax_warnings_nan: "softmax_warnings [[NaN, NaN]] = []"
  by (simp add: softmax_warnings_def)

lemma flat_trace: "pick_trace [(''zdisp'', replicate 1536 0)] = Inr (replicate 1536 0)"
  by (simp add: pick_trace_def)

lemma filter_stdout_warnings: "filter (\<lambda>w. fst w = Stdout) (map (Pair Stderr) ws) = []"
  by (induction ws) simp_all

lemma filter_stderr_warnings:
  "filter (\<lambda>w. fst w = Stderr) (map (Pair Stderr) ws) = map (Pair Stderr) ws"
  by (induction ws) simp_all

lemma map_snd_Pair: "map (snd \<circ> Pair s) ws = ws"
  by (induction ws) simp_all

lemmas stream_simps =
  stdout_lines_def stderr_lines_def filter_stdout_warnings filter_stderr_warnings map_snd_Pair

lemma softmax_two_length: "length (softmax [s0, s1]) = 2"
  by (simp add: softmax_def Let_def)

lemma softmax_two_nonempty: "softmax [s0, s1] \<noteq> []"
  using softmax_two_length [of s0 s1] by auto

lemma rogue_row_two:
  "rogue_row [[s0, s1]] =
     Inr (RogueRow (softmax [s0, s1] ! 0) (softmax [s0, s1] ! 1)
            (wave_type_str (argmax (softmax [s0, s1]))))"
  by (simp add: rogue_row_def softmax_axis_def rogue_report_def bind_exn_def nth_exn_def
      softmax_two_length softmax_two_nonempty)

lemma rogue_process_zero_scale:
  assumes "np_load env path = Inr data"
    and "pick_trace data = Inr zdisp"
    and "length zdisp = 1536"
    and "np_std env zdisp = (Fin 0, sw)"
    and "load_model env model_path = Inr model"
    and "model (zdisp_norm (Fin 0) zdisp) = Inr [[s0, s1]]"
  shows "rogue_process env path =
     \<lparr>writes = map (Pair Stderr)
                  (map Warning sw @ divide_warnings (Fin 0) zdisp @ softmax_warnings [[s0, s1]])
                @ [(Stdout, Text rogue_header),
                   (Stdout, RogueRow (softmax [s0, s1] ! 0) (softmax [s0, s1] ! 1)
                              (wave_type_str (argmax (softmax [s0, s1]))))],
      status = 0\<rparr>"
proof -
  have r: "rogue_report [softmax [s0, s1]] =
      Inr (RogueRow (softmax [s0, s1] ! 0) (softmax [s0, s1] ! 1)
            (wave_type_str (argmax (softmax [s0, s1]))))"
    by (simp add: rogue_report_def bind_exn_def nth_exn_def softmax_two_length
        softmax_two_nonempty)
  have a: "softmax_axis [[s0, s1]] = Inr [softmax [s0, s1]]"
    by (simp add: softmax_axis_def)
  show ?thesis
    using assms
    by (simp add: rogue_process_def swh_zero length_zdisp_norm Let_def a r)
qed

text \<open>
  C2 (as amended). When the scale \<open>4 * np.std\<close> that numpy computes for a trace of
  1536 samples is zero, the division does not raise: numpy prints a warning on
  standard error (after those of \<open>np.std\<close>, if any), every normalised sample is NaN
  (where the sample is zero) or an infinity, the network is run on them and, when it
  returns its two scores, the script prints its two lines and exits with status 0.
  The script has no check of the scale.
\<close>

theorem zero_scale_prints:
  assumes "2 \<le> length argv"
    and "np_load env (argv ! 1) = Inr data"
    and "pick_trace data = Inr zdisp"
    and "length zdisp = 1536"
    and "np_std env zdisp = (Fin 0, sw)"
    and "load_model env model_path = Inr model"
    and "model (zdisp_norm (Fin 0) zdisp) = Inr [[s0, s1]]"
  shows "significant_wave_height (fst (np_std env zdisp)) = Fin 0 \<and>
         zdisp_norm (Fin 0) zdisp
           = map (\<lambda>x. if x = 0 then NaN else if 0 < x then PInf else NInf) zdisp \<and>
         status (rogue_main env argv) = 0 \<and>
         stdout_lines (rogue_main env argv)
           = [Text rogue_header,
              RogueRow (softmax [s0, s1] ! 0) (softmax [s0, s1] ! 1)
                (wave_type_str (argmax (softmax [s0, s1])))] \<and>
         stderr_lines (rogue_main env argv)
           = map Warning sw @ divide_warnings (Fin 0) zdisp @ softmax_warnings [[s0, s1]] \<and>
         divide_warnings (Fin 0) zdisp \<noteq> []"
proof -
  have m: "rogue_main env argv = rogue_process env (argv ! 1)"
    using assms(1) by (simp add: rogue_main_def)
  have z: "zdisp \<noteq> []"
    using assms(4) by auto
  note p = rogue_process_zero_scale [OF assms(2-7)]
  show ?thesis
    unfolding m p
    by (simp add: stream_simps assms(5) swh_zero zdisp_norm_zero
        divide_warnings_zero [OF z])
qed

lemma flat_std: "np_std flat_env (replicate 1536 0) = (Fin 0, [])"
  by (simp add: flat_env_def exact_std_constant)

lemma flat_norm: "zdisp_norm (Fin 0) (replicate 1536 0) = replicate 1536 NaN"
  by (simp add: zdisp_norm_def)

lemma flat_net: "nan_net (zdisp_norm (Fin 0) (replicate 1536 0)) = Inr [[NaN, NaN]]"
  by (simp add: flat_norm nan_net_def)

lemma flat_warnings:
  "divide_warnings (Fin 0) (replicate 1536 0) = [Warning ''invalid value encountered in divide'']"
  by (simp add: divide_warnings_def list_ex_iff)

theorem zero_scale_prints_witness:
  "np_std flat_env (replicate 1536 0) = (Fin 0, []) \<and>
   status (rogue_main flat_env [''predict.py'', ''flat.npz'']) = 0 \<and>
   stderr_lines (rogue_main flat_env [''predict.py'', ''flat.npz''])
     = [Warning ''invalid value encountered in divide'']"
  using zero_scale_prints [of "[''predict.py'', ''flat.npz'']" flat_env
      "[(''zdisp'', replicate 1536 0)]" "replicate 1536 0" "[]" nan_net NaN NaN]
    flat_trace flat_std flat_net flat_warnings softmax_warnings_nan
  by (simp add: flat_env_def)

text \<open>
  The claim of C2 fails on the all-zero trace: no error is reported, and the data
  line carries NaN for both probabilities.
\<close>

theorem zero_scale_counterexample:
  "rogue_main flat_env [''predict.py'', ''flat.npz''] =
     \<lparr>writes = [(Stderr, Warning ''invalid value encountered in divide''),
                (Stdout, Text rogue_header),
                (Stdout, RogueRow NaN NaN ''non-rogue wave'')],
      status = 0\<rparr>"
proof -
  have e: "np_load flat_env ''flat.npz'' = Inr [(''zdisp'', replicate 1536 0)]"
    "load_model flat_env model_path = Inr nan_net"
    by (simp_all add: flat_env_def)
  have "rogue_process flat_env ''flat.npz'' =
     \<lparr>writes = map (Pair Stderr)
                  (map Warning [] @ divide_warnings (Fin 0) (replicate 1536 0)
                   @ softmax_warnings [[NaN, NaN]])
                @ [(Stdout, Text rogue_header),
                   (Stdout, RogueRow (softmax [NaN, NaN] ! 0) (softmax [NaN, NaN] ! 1)
                              (wave_type_str (argmax (softmax [NaN, NaN]))))],
      status = 0\<rparr>"
    using e(1) flat_trace _ flat_std e(2) flat_net
    by (rule rogue_process_zero_scale) simp
  then show ?thesis
    by (simp add: rogue_main_def flat_warnings softmax_warnings_nan softmax_nan
        argmax_def amax_def fmax_def wave_type_str_def)
qed

lemma marine_categories:
  fixes menv argv
  defines "M \<equiv> marine_main menv argv"
  shows
   "(length argv \<noteq> 2 \<longrightarrow> M = \<lparr>writes = [(Devnull, Text marine_usage)], status = 1\<rparr>) \<and>
    (length argv = 2 \<and> load_artifacts menv = Inl e \<longrightarrow>
       M = \<lparr>writes = [(Devnull, Failed ''Failed to load model or scaler: '' e)], status = 1\<rparr>) \<and>
    (length argv = 2 \<and> load_artifacts menv = Inr (model, sc) \<and>
       read_csv menv (argv ! 1) = Inl e \<longrightarrow>
       M = \<lparr>writes = [(Devnull, Failed ''Failed to read/process input: '' e)], status = 1\<rparr>) \<and>
    (length argv = 2 \<and> load_artifacts menv = Inr (model, sc) \<and>
       read_csv menv (argv ! 1) = Inr raw \<longrightarrow>
       (length (rows (dropna raw)) < 24 \<longrightarrow>
          M = \<lparr>writes = [(Devnull, Text ''data.csv must contain at least 24 rows'')],
               status = 1\<rparr>) \<and>
       (24 \<le> length (rows (dropna raw)) \<and> select features (dropna raw) = Inl e \<longrightarrow>
          M = \<lparr>writes = [(Devnull, Failed ''Failed to read/process input: '' e)],
               status = 1\<rparr>) \<and>
       (parse_input raw = Inr (df, w) \<and> predict_step model sc w = Inl e \<longrightarrow>
          M = \<lparr>writes = [(Devnull, Failed ''Prediction failed: '' e)], status = 1\<rparr>) \<and>
       (parse_input raw = Inr (df, w) \<and> predict_step model sc w = Inr p \<and>
          last_row df = Inr row \<and> next_time (columns df) row = Inl e \<longrightarrow>
          M = \<lparr>writes = [(Devnull, Failed ''Time parsing failed: '' e)], status = 1\<rparr>) \<and>
       (parse_input raw = Inr (df, w) \<and> predict_step model sc w = Inr p \<and>
          last_row df = Inr row \<and> next_time (columns df) row = Inr t \<and>
          field (columns df) row ''station'' = Inl e \<longrightarrow>
          M = \<lparr>writes = [(Devnull, Traceback e)], status = 1\<rparr>))"
  unfolding M_def
  by (auto simp: marine_main_def marine_process_def parse_input_def Let_def die_def crash_def
      sys_stderr_def bind_exn_def split: prod.splits)


lemma std_warnings_are: "list_all is_warning (map Warning sw)"
  by (simp add: list_all_iff)

lemma divide_warnings_are: "list_all is_warning (divide_warnings swh zdisp)"
  by (simp add: divide_warnings_def)

lemma scale_warnings_are: "list_all is_warning (map Warning sw @ divide_warnings swh zdisp)"
  by (simp add: std_warnings_are divide_warnings_are)

lemma softmax_warnings_are: "list_all is_warning (softmax_warnings pred)"
  by (simp add: softmax_warnings_def)

lemma rogue_report_row: "rogue_report prob = Inr l \<Longrightarrow> \<exists>p0 p1 s. l = RogueRow p0 p1 s"
  by (auto simp: rogue_report_def bind_exn_def nth_exn_def split: if_splits)

lemma rogue_process_cases:
  "(\<exists>ws e. list_all is_warning ws \<and> rogue_process env path = crash_after ws e) \<or>
   (\<exists>ws p0 p1 s. list_all is_warning ws \<and>
      rogue_process env path =
        \<lparr>writes = map (Pair Stderr) ws @ [(Stdout, Text rogue_header), (Stdout, RogueRow p0 p1 s)],
         status = 0\<rparr>)"
proof -
  have w: "list_all is_warning
      (map Warning sw @ divide_warnings swh zdisp @ softmax_warnings pred)"
    for sw swh zdisp pred
    by (simp add: std_warnings_are divide_warnings_are softmax_warnings_are)
  have n: "list_all is_warning []" by simp
  show ?thesis
    unfolding rogue_process_def Let_def
    by (auto split: sum.splits dest!: rogue_report_row
        intro: n scale_warnings_are w)
qed


lemma rogue_categories:
  fixes renv argv zdisp
  defines "R \<equiv> rogue_main renv argv"
    and "swh \<equiv> significant_wave_height (fst (np_std renv zdisp))"
    and "dw \<equiv> map Warning (snd (np_std renv zdisp))
                @ divide_warnings (significant_wave_height (fst (np_std renv zdisp))) zdisp"
  shows
   "(length argv < 2 \<longrightarrow> R = \<lparr>writes = [(Stdout, Text rogue_usage)], status = 1\<rparr>) \<and>
    (2 \<le> length argv \<and> np_load renv (argv ! 1) = Inl e \<longrightarrow> R = crash_after [] e) \<and>
    (2 \<le> length argv \<and> np_load renv (argv ! 1) = Inr data \<longrightarrow>
       (pick_trace data = Inl e \<longrightarrow> R = crash_after [] e) \<and>
       (pick_trace data = Inr zdisp \<longrightarrow>
          (length zdisp \<noteq> 1536 \<longrightarrow>
             R = crash_after dw (ValueError ''cannot reshape array'')) \<and>
          (length zdisp = 1536 \<and> load_model renv model_path = Inl e \<longrightarrow>
             R = crash_after dw e) \<and>
          (length zdisp = 1536 \<and> load_model renv model_path = Inr model \<longrightarrow>
             (model (zdisp_norm swh zdisp) = Inl e \<longrightarrow>
                R = crash_after dw e) \<and>
             (model (zdisp_norm swh zdisp) = Inr pred \<longrightarrow>
                (softmax_axis pred = Inl e \<longrightarrow>
                   R = crash_after dw e) \<and>
                (softmax_axis pred = Inr prob \<and> rogue_report prob = Inl e \<longrightarrow>
                   R = crash_after (dw @ softmax_warnings pred) e) \<and>
                (rogue_row pred = Inr l \<longrightarrow>
                   R = \<lparr>writes =
                          map (Pair Stderr) (dw @ softmax_warnings pred)
                          @ [(Stdout, Text rogue_header), (Stdout, l)],
                        status = 0\<rparr>)))))"
  unfolding R_def swh_def dw_def
  by (auto simp: rogue_main_def rogue_process_def rogue_row_def Let_def length_zdisp_norm
      bind_exn_def split: sum.splits)

lemma marine_shape:
  fixes menv argv
  defines "M \<equiv> marine_main menv argv"
  shows "(status M = 0 \<or> status M = 1) \<and>
   (status M = 1 \<longrightarrow>
      stdout_lines M = [] \<and> stderr_lines M = [] \<and>
      (\<exists>l. marine_diagnostic l \<and> writes M = [(Devnull, l)])) \<and>
   (status M = 0 \<longrightarrow>
      (\<exists>row. writes M = [(Stdout, Text marine_header), (Stdout, MarineRow row)]))"
  unfolding M_def using marine_main_cases [of menv argv]
  by (auto simp: stdout_lines_def stderr_lines_def)

lemma rogue_shape:
  fixes renv argv
  defines "R \<equiv> rogue_main renv argv"
  shows "(status R = 0 \<or> status R = 1) \<and>
   (2 \<le> length argv \<and> status R = 1 \<longrightarrow>
      stdout_lines R = [] \<and>
      (\<exists>ws e. list_all is_warning ws \<and> stderr_lines R = ws @ [Traceback e])) \<and>
   (status R = 0 \<longrightarrow>
      2 \<le> length argv \<and> list_all is_warning (stderr_lines R) \<and>
      (\<exists>p0 p1 s. stdout_lines R = [Text rogue_header, RogueRow p0 p1 s]))"
proof (cases "length argv < 2")
  case True
  then show ?thesis
    by (simp add: R_def rogue_main_def)
next
  case False
  then have r: "R = rogue_process renv (argv ! 1)"
    by (simp add: R_def rogue_main_def)
  show ?thesis
    using rogue_process_cases [of renv "argv ! 1"] False unfolding r
    by (auto simp: crash_after_def stream_simps)
qed

lemma diagnostics_distinct:
  "distinct [marine_usage, ''data.csv must contain at least 24 rows'',
     ''Failed to load model or scaler: '', ''Failed to read/process input: '',
     ''Prediction failed: '', ''Time parsing failed: '']"
  by (simp add: marine_usage_def)

text \<open>
  C3 (as amended). Every run of either script ends with status 0 or 1, and only a
  run with status 0 writes the header and the data line on standard output.

  A failing run of the marine script writes nothing to standard output and nothing to
  standard error: its one line goes to the null device that line 16 bound to
  \<open>sys.stderr\<close>. The line is fixed by the step that failed: the usage text for a wrong
  argument count; "Failed to load model or scaler" with the exception for the
  artifacts; "Failed to read/process input" with the exception when the file cannot
  be read or a feature column is absent; "data.csv must contain at least 24 rows";
  "Prediction failed" with the exception; "Time parsing failed" with the exception;
  a traceback for the station number. The six texts are distinct.

  A failing run of the rogue-wave script without a path prints the usage line on
  standard output. Every other failing run of it is an uncaught exception: nothing on
  standard output, and on standard error the warnings of \<open>np.std\<close>, of the division
  and of the softmax so far, then the traceback of the exception of the step that failed
  (loading the file, picking the array, reshaping, loading the network, predicting,
  the softmax, indexing the probabilities).
\<close>

theorem failing_runs:
  fixes menv renv argv zdisp
  defines "M \<equiv> marine_main menv argv"
    and "R \<equiv> rogue_main renv argv"
    and "swh \<equiv> significant_wave_height (fst (np_std renv zdisp))"
    and "dw \<equiv> map Warning (snd (np_std renv zdisp))
                @ divide_warnings (significant_wave_height (fst (np_std renv zdisp))) zdisp"
  shows
   "((status M = 0 \<or> status M = 1) \<and>
     (status M = 1 \<longrightarrow>
        stdout_lines M = [] \<and> stderr_lines M = [] \<and>
        (\<exists>l. marine_diagnostic l \<and> writes M = [(Devnull, l)])) \<and>
     (status M = 0 \<longrightarrow>
        (\<exists>row. writes M = [(Stdout, Text marine_header), (Stdout, MarineRow row)]))) \<and>
    ((length argv \<noteq> 2 \<longrightarrow> M = \<lparr>writes = [(Devnull, Text marine_usage)], status = 1\<rparr>) \<and>
     (length argv = 2 \<and> load_artifacts menv = Inl e \<longrightarrow>
        M = \<lparr>writes = [(Devnull, Failed ''Failed to load model or scaler: '' e)],
             status = 1\<rparr>) \<and>
     (length argv = 2 \<and> load_artifacts menv = Inr (model, sc) \<and>
        read_csv menv (argv ! 1) = Inl e \<longrightarrow>
        M = \<lparr>writes = [(Devnull, Failed ''Failed to read/process input: '' e)],
             status = 1\<rparr>) \<and>
     (length argv = 2 \<and> load_artifacts menv = Inr (model, sc) \<and>
        read_csv menv (argv ! 1) = Inr raw \<longrightarrow>
        (length (rows (dropna raw)) < 24 \<longrightarrow>
           M = \<lparr>writes = [(Devnull, Text ''data.csv must contain at least 24 rows'')],
                status = 1\<rparr>) \<and>
        (24 \<le> length (rows (dropna raw)) \<and> select features (dropna raw) = Inl e \<longrightarrow>
           M = \<lparr>writes = [(Devnull, Failed ''Failed to read/process input: '' e)],
                status = 1\<rparr>) \<and>
        (parse_input raw = Inr (df, w) \<and> predict_step model sc w = Inl e \<longrightarrow>
           M = \<lparr>writes = [(Devnull, Failed ''Prediction failed: '' e)], status = 1\<rparr>) \<and>
        (parse_input raw = Inr (df, w) \<and> predict_step model sc w = Inr p \<and>
           last_row df = Inr row \<and> next_time (columns df) row = Inl e \<longrightarrow>
           M = \<lparr>writes = [(Devnull, Failed ''Time parsing failed: '' e)], status = 1\<rparr>) \<and>
        (parse_input raw = Inr (df, w) \<and> predict_step model sc w = Inr p \<and>
           last_row df = Inr row \<and> next_time (columns df) row = Inr t \<and>
           field (columns df) row ''station'' = Inl e \<longrightarrow>
           M = \<lparr>writes = [(Devnull, Traceback e)], status = 1\<rparr>))) \<and>
    distinct [marine_usage, ''data.csv must contain at least 24 rows'',
      ''Failed to load model or scaler: '', ''Failed to read/process input: '',
      ''Prediction failed: '', ''Time parsing failed: ''] \<and>
    ((status R = 0 \<or> status R = 1) \<and>
     (2 \<le> length argv \<and> status R = 1 \<longrightarrow>
        stdout_lines R = [] \<and>
        (\<exists>ws x. list_all is_warning ws \<and> stderr_lines R = ws @ [Traceback x])) \<and>
     (status R = 0 \<longrightarrow>
        2 \<le> length argv \<and> list_all is_warning (stderr_lines R) \<and>
        (\<exists>p0 p1 s. stdout_lines R = [Text rogue_header, RogueRow p0 p1 s]))) \<and>
    ((length argv < 2 \<longrightarrow> R = \<lparr>writes = [(Stdout, Text rogue_usage)], status = 1\<rparr>) \<and>
     (2 \<le> length argv \<and> np_load renv (argv ! 1) = Inl e \<longrightarrow> R = crash_after [] e) \<and>
     (2 \<le> length argv \<and> np_load renv (argv ! 1) = Inr data \<longrightarrow>
        (pick_trace data = Inl e \<longrightarrow> R = crash_after [] e) \<and>
        (pick_trace data = Inr zdisp \<longrightarrow>
           (length zdisp \<noteq> 1536 \<longrightarrow>
              R = crash_after dw
                    (ValueError ''cannot reshape array'')) \<and>
           (length zdisp = 1536 \<and> load_model renv model_path = Inl e \<longrightarrow>
              R = crash_after dw e) \<and>
           (length zdisp = 1536 \<and> load_model renv model_path = Inr net \<longrightarrow>
              (net (zdisp_norm swh zdisp) = Inl e \<longrightarrow>
                 R = crash_after dw e) \<and>
              (net (zdisp_norm swh zdisp) = Inr pred \<longrightarrow>
                 (softmax_axis pred = Inl e \<longrightarrow>
                    R = crash_after dw e) \<and>
                 (softmax_axis pred = Inr prob \<and> rogue_report prob = Inl e \<longrightarrow>
                    R = crash_after (dw @ softmax_warnings pred) e) \<and>
                 (rogue_row pred = Inr l \<longrightarrow>
                    R = \<lparr>writes =
                           map (Pair Stderr)
                             (dw @ softmax_warnings pred)
                           @ [(Stdout, Text rogue_header), (Stdout, l)],
                         status = 0\<rparr>))))))"
  (is "?MS \<and> ?MC \<and> ?D \<and> ?RS \<and> ?RC")
proof -
  have ms: ?MS unfolding M_def by (rule marine_shape)
  have mc: ?MC unfolding M_def by (rule marine_categories)
  have d: ?D by (rule diagnostics_distinct)
  have rs: ?RS unfolding R_def by (rule rogue_shape)
  have rc: ?RC unfolding R_def swh_def dw_def by (rule rogue_categories)
  show ?thesis
    by (rule conjI, rule ms, rule conjI, rule mc, rule conjI, rule d, rule conjI, rule rs,
        rule rc)
qed


lemma swell_usage:
  "rogue_main swell_env [''predict.py''] = \<lparr>writes = [(Stdout, Text rogue_usage)], status = 1\<rparr>"
  by (simp add: rogue_main_def)

lemma softmax_even: "softmax [Fin 0, Fin 0] = [Fin (1 / 2), Fin (1 / 2)]"
  by (simp add: softmax_fin)

lemma rogue_report_even:
  "rogue_report [[Fin (1 / 2), Fin (1 / 2)]]
     = Inr (RogueRow (Fin (1 / 2)) (Fin (1 / 2)) ''non-rogue wave'')"
  by (simp add: rogue_report_def bind_exn_def nth_exn_def argmax_two wave_type_str_def)

lemma swell_trace:
  "pick_trace [(''zdisp_norw'', replicate 768 1 @ replicate 768 (- 1))]
     = Inr (replicate 768 1 @ replicate 768 (- 1))"
  by (simp add: pick_trace_def)

lemma swell_scale:
  "significant_wave_height (fst (np_std swell_env (replicate 768 1 @ replicate 768 (- 1))))
     = Fin 4"
  by (simp add: significant_wave_height_def swell_env_def exact_std_swell)

lemma swell_process:
  "rogue_process swell_env path =
     \<lparr>writes = [(Stdout, Text rogue_header),
                (Stdout, RogueRow (Fin (1 / 2)) (Fin (1 / 2)) ''non-rogue wave'')],
      status = 0\<rparr>"
proof -
  have e: "np_load swell_env path = Inr [(''zdisp_norw'', replicate 768 1 @ replicate 768 (- 1))]"
    "load_model swell_env model_path = Inr even_net"
    by (simp_all add: swell_env_def)
  have w: "divide_warnings (Fin 4) (replicate 768 1 @ replicate 768 (- 1)) = []"
    by (simp add: divide_warnings_def)
  have n: "snd (np_std swell_env (replicate 768 1 @ replicate 768 (- 1))) = []"
    by (simp add: swell_env_def)
  have a: "softmax_axis [[Fin 0, Fin 0]] = Inr [[Fin (1 / 2), Fin (1 / 2)]]"
    by (simp add: softmax_axis_def softmax_even)
  show ?thesis
    by (simp add: rogue_process_def e swell_trace swell_scale w n Let_def length_zdisp_norm
        even_net_def a rogue_report_even softmax_warnings_fin)
qed

lemma swell_run:
  "2 \<le> length argv \<Longrightarrow> rogue_main swell_env argv =
     \<lparr>writes = [(Stdout, Text rogue_header),
                (Stdout, RogueRow (Fin (1 / 2)) (Fin (1 / 2)) ''non-rogue wave'')],
      status = 0\<rparr>"
  by (simp add: rogue_main_def swell_process)

text \<open>
  The claim of C3 fails on the rogue-wave script run without a path: the run fails
  with status 1, yet its usage line is on standard output and nothing is on standard
  error.
\<close>

theorem failing_runs_counterexample:
  "status (rogue_main swell_env [''predict.py'']) = 1 \<and>
   stdout_lines (rogue_main swell_env [''predict.py'']) = [Text rogue_usage] \<and>
   stderr_lines (rogue_main swell_env [''predict.py'']) = []"
  by (simp add: swell_usage stdout_lines_def stderr_lines_def)

lemma marine_process_not_usage:
  "marine_process model sc raw \<noteq> \<lparr>writes = [(Devnull, Text marine_usage)], status = 1\<rparr>"
  by (auto simp: marine_process_def parse_input_def Let_def die_def crash_def sys_stderr_def
      marine_usage_def split: sum.splits prod.splits)

lemma marine_usage_iff:
  "marine_main menv argv = \<lparr>writes = [(Devnull, Text marine_usage)], status = 1\<rparr>
     \<longleftrightarrow> length argv \<noteq> 2"
  using marine_process_not_usage
  by (auto simp: marine_main_def die_def sys_stderr_def split: sum.splits prod.splits)

lemma rogue_process_not_usage:
  "rogue_process renv path \<noteq> \<lparr>writes = [(Stdout, Text rogue_usage)], status = 1\<rparr>"
proof
  assume u: "rogue_process renv path = \<lparr>writes = [(Stdout, Text rogue_usage)], status = 1\<rparr>"
  from rogue_process_cases [of renv path] show False
  proof (elim disjE exE conjE)
    fix ws e
    assume "rogue_process renv path = crash_after ws e"
    with u have "map (Pair Stderr) ws @ [(Stderr, Traceback e)] = [(Stdout, Text rogue_usage)]"
      by (simp add: crash_after_def)
    then show False by (cases ws) simp_all
  next
    fix ws p0 p1 s
    assume "rogue_process renv path =
        \<lparr>writes = map (Pair Stderr) ws @ [(Stdout, Text rogue_header), (Stdout, RogueRow p0 p1 s)],
         status = 0\<rparr>"
    with u show False by simp
  qed
qed

lemma rogue_usage_iff:
  "rogue_main renv argv = \<lparr>writes = [(Stdout, Text rogue_usage)], status = 1\<rparr>
     \<longleftrightarrow> length argv < 2"
  using rogue_process_not_usage by (simp add: rogue_main_def)

text \<open>
  C4 (as amended). The marine script ends with its usage line (written to the stream
  bound to \<open>sys.stderr\<close>) and status 1 exactly when the argument count is not one path.
  The rogue-wave script ends with its usage line (on standard output) and status 1
  exactly when the path is missing; with arguments after the path it runs lines
  15-45 on the path, exactly as without them.
\<close>

theorem usage_errors:
  "(marine_main menv argv = \<lparr>writes = [(Devnull, Text marine_usage)], status = 1\<rparr>
      \<longleftrightarrow> length argv \<noteq> 2) \<and>
   (rogue_main renv argv = \<lparr>writes = [(Stdout, Text rogue_usage)], status = 1\<rparr>
      \<longleftrightarrow> length argv < 2) \<and>
   rogue_main renv (prog # path # extra) = rogue_main renv [prog, path] \<and>
   rogue_main renv (prog # path # extra) = rogue_process renv path"
  using marine_usage_iff [of menv argv] rogue_usage_iff [of renv argv]
  by (simp add: rogue_main_def)

theorem usage_errors_witness:
  "marine_main bare_env [''predict.py'', ''data.csv'', ''more.csv''] =
     \<lparr>writes = [(Devnull, Text marine_usage)], status = 1\<rparr> \<and>
   marine_main bare_env [''predict.py'', ''data.csv''] \<noteq>
     \<lparr>writes = [(Devnull, Text marine_usage)], status = 1\<rparr> \<and>
   rogue_main swell_env [] = \<lparr>writes = [(Stdout, Text rogue_usage)], status = 1\<rparr> \<and>
   rogue_main swell_env [''predict.py'', ''swell.npz'', ''extra''] \<noteq>
     \<lparr>writes = [(Stdout, Text rogue_usage)], status = 1\<rparr>"
proof -
  have a: "marine_main bare_env [''predict.py'', ''data.csv'', ''more.csv''] =
     \<lparr>writes = [(Devnull, Text marine_usage)], status = 1\<rparr>"
    using usage_errors [of bare_env "[''predict.py'', ''data.csv'', ''more.csv'']"] by simp
  have b: "marine_main bare_env [''predict.py'', ''data.csv''] \<noteq>
     \<lparr>writes = [(Devnull, Text marine_usage)], status = 1\<rparr>"
    using usage_errors [of bare_env "[''predict.py'', ''data.csv'']"] by simp
  have c: "rogue_main swell_env [] = \<lparr>writes = [(Stdout, Text rogue_usage)], status = 1\<rparr>"
    using usage_errors [of _ "[]" swell_env] by simp
  have d: "rogue_main swell_env [''predict.py'', ''swell.npz'', ''extra''] \<noteq>
     \<lparr>writes = [(Stdout, Text rogue_usage)], status = 1\<rparr>"
  proof -
    have "\<not> length [''predict.py'', ''swell.npz'', ''extra''] < 2" by simp
    with usage_errors [of _ "[''predict.py'', ''swell.npz'', ''extra'']" swell_env]
    show ?thesis by blast
  qed
  from a b c d show ?thesis by (intro conjI)
qed

text \<open>
  The claim of C4 fails on the rogue-wave script with an extra argument: no usage
  message, a result is printed and the status is 0.
\<close>

theorem usage_errors_counterexample:
  "rogue_main swell_env [''predict.py'', ''swell.npz'', ''extra''] =
     \<lparr>writes = [(Stdout, Text rogue_header),
                (Stdout, RogueRow (Fin (1 / 2)) (Fin (1 / 2)) ''non-rogue wave'')],
      status = 0\<rparr>"
  by (simp add: swell_run)

text \<open>Runs of each kind of C3, each on a concrete input.\<close>

theorem failing_runs_witness:
  "marine_main bare_env [''predict.py'', ''data.csv''] =
     \<lparr>writes = [(Devnull, Failed ''Failed to load model or scaler: ''
                  (LibraryError ''No such file or directory''))], status = 1\<rparr> \<and>
   marine_main gappy_env [''predict.py'', ''data.csv''] =
     \<lparr>writes = [(Devnull, Text ''data.csv must contain at least 24 rows'')], status = 1\<rparr> \<and>
   marine_main late_env [''predict.py'', ''data.csv''] =
     \<lparr>writes = [(Devnull, Failed ''Time parsing failed: ''
                  (OverflowError ''date value out of range''))], status = 1\<rparr> \<and>
   (\<exists>row. writes (marine_main calm_env [''predict.py'', ''data.csv''])
       = [(Stdout, Text marine_header), (Stdout, MarineRow row)]) \<and>
   rogue_main void_env [''predict.py'', ''gone.npz''] =
     \<lparr>writes = [(Stderr, Traceback (LibraryError ''No such file or directory''))],
      status = 1\<rparr> \<and>
   rogue_main swell_env [''predict.py''] =
     \<lparr>writes = [(Stdout, Text rogue_usage)], status = 1\<rparr> \<and>
   stdout_lines (rogue_main swell_env [''predict.py'', ''swell.npz''])
     = [Text rogue_header, RogueRow (Fin (1 / 2)) (Fin (1 / 2)) ''non-rogue wave'']"
proof -
  have a: "marine_main bare_env [''predict.py'', ''data.csv''] =
     \<lparr>writes = [(Devnull, Failed ''Failed to load model or scaler: ''
                  (LibraryError ''No such file or directory''))], status = 1\<rparr>"
    using failing_runs [where menv = bare_env and argv = "[''predict.py'', ''data.csv'']"
        and e = "LibraryError ''No such file or directory''"]
    by (simp add: bare_env_def)
  have b: "marine_main gappy_env [''predict.py'', ''data.csv''] =
     \<lparr>writes = [(Devnull, Text ''data.csv must contain at least 24 rows'')], status = 1\<rparr>"
    using failing_runs [where menv = gappy_env and argv = "[''predict.py'', ''data.csv'']"
        and model = steady_lstm and sc = identity_scaler and raw = gappy_frame]
      gappy_short
    by (simp add: gappy_env_def)
  have c: "marine_main late_env [''predict.py'', ''data.csv''] =
     \<lparr>writes = [(Devnull, Failed ''Time parsing failed: ''
                  (OverflowError ''date value out of range''))], status = 1\<rparr>"
    using failing_runs [where menv = late_env and argv = "[''predict.py'', ''data.csv'']"
        and model = steady_lstm and sc = identity_scaler and raw = late_frame
        and df = "\<lparr>columns = features, rows = replicate 24 (map the late_row)\<rparr>"
        and w = "replicate 24 (map the late_row)" and p = "(1, 5, 8)"
        and row = "map the late_row" and e = "OverflowError ''date value out of range''"]
      late_parse late_predict late_last late_next_time
    by (simp add: late_env_def)
  have s0: "status (marine_main calm_env [''predict.py'', ''data.csv'']) = 0"
    by (simp add: calm_run)
  have d: "\<exists>row. writes (marine_main calm_env [''predict.py'', ''data.csv''])
       = [(Stdout, Text marine_header), (Stdout, MarineRow row)]"
    using failing_runs [where menv = calm_env and argv = "[''predict.py'', ''data.csv'']"] s0
    by blast
  have e: "rogue_main void_env [''predict.py'', ''gone.npz''] =
     \<lparr>writes = [(Stderr, Traceback (LibraryError ''No such file or directory''))],
      status = 1\<rparr>"
    using failing_runs [where renv = void_env and argv = "[''predict.py'', ''gone.npz'']"
        and e = "LibraryError ''No such file or directory''"]
    by (simp add: void_env_def crash_after_def)
  have f: "rogue_main swell_env [''predict.py''] =
     \<lparr>writes = [(Stdout, Text rogue_usage)], status = 1\<rparr>"
    using failing_runs [where renv = swell_env and argv = "[''predict.py'']"]
    by simp
  have s1: "status (rogue_main swell_env [''predict.py'', ''swell.npz'']) = 0"
    by (simp add: swell_run)
  have g: "stdout_lines (rogue_main swell_env [''predict.py'', ''swell.npz''])
     = [Text rogue_header, RogueRow (Fin (1 / 2)) (Fin (1 / 2)) ''non-rogue wave'']"
    by (simp add: swell_run stdout_lines_def)
  from a b c d e f g show ?thesis by (intro conjI)
qed











end
